theory Spec2Isabelle
  imports Main "HOL-Library.Word"
begin

section \<open>The snapshot-based image replayer (tools/rbd\_mirror/image\_replayer/snapshot/Replayer.cc)\<close>

subsection \<open>Data model\<close>

text \<open>Snapshot ids and object numbers are \<open>uint64_t\<close>.\<close>

type_synonym snapid = "64 word"

text \<open>
  Modelled from the spec: \<open>CEPH_NOSNAP\<close> is declared in a header outside the sources; the
  spec calls it the sentinel \<open>NOSNAP\<close> ("image head" or "no such snap"). It is the
  64-bit value \<open>(uint64_t)(-2)\<close>; the replayer only compares with it.
\<close>

definition CEPH_NOSNAP :: snapid where
  "CEPH_NOSNAP = - 2"

text \<open>The errno values the replayer names.\<close>

definition ENOENT :: int where "ENOENT = 2"
definition EEXIST :: int where "EEXIST = 17"
definition EINVAL :: int where "EINVAL = 22"

text \<open>\<open>Replayer::State\<close>.\<close>

datatype State = STATE_INIT | STATE_REPLAYING | STATE_IDLE | STATE_COMPLETE

text \<open>
  Modelled from the spec: \<open>cls::rbd::MirrorSnapshotNamespace\<close> is declared outside the
  sources. The spec (section 3) lists its fields and the four kinds; the scans also have a
  branch for a snapshot that is neither primary nor non-primary, hence the fifth
  constructor for any other stored value.
\<close>

datatype MirrorSnapshotState =
    MIRROR_SNAPSHOT_STATE_PRIMARY
  | MIRROR_SNAPSHOT_STATE_PRIMARY_DEMOTED
  | MIRROR_SNAPSHOT_STATE_NON_PRIMARY
  | MIRROR_SNAPSHOT_STATE_NON_PRIMARY_DEMOTED
  | MIRROR_SNAPSHOT_STATE_OTHER

type_synonym SnapSeqs = "(snapid \<times> snapid) list"

record MirrorSnapshotNamespace =
  state :: MirrorSnapshotState
  complete :: bool
  mirror_peer_uuids :: "string set"
  primary_mirror_uuid :: string
  primary_snap_id :: snapid
  last_copied_object_number :: "64 word"
  snap_seqs :: SnapSeqs

definition is_primary :: "MirrorSnapshotNamespace \<Rightarrow> bool" where
  "is_primary ns =
     (state ns = MIRROR_SNAPSHOT_STATE_PRIMARY \<or> state ns = MIRROR_SNAPSHOT_STATE_PRIMARY_DEMOTED)"

definition is_non_primary :: "MirrorSnapshotNamespace \<Rightarrow> bool" where
  "is_non_primary ns =
     (state ns = MIRROR_SNAPSHOT_STATE_NON_PRIMARY \<or>
      state ns = MIRROR_SNAPSHOT_STATE_NON_PRIMARY_DEMOTED)"

definition is_demoted :: "MirrorSnapshotNamespace \<Rightarrow> bool" where
  "is_demoted ns =
     (state ns = MIRROR_SNAPSHOT_STATE_PRIMARY_DEMOTED \<or>
      state ns = MIRROR_SNAPSHOT_STATE_NON_PRIMARY_DEMOTED)"

text \<open>
  Modelled from the spec: the value of a default-constructed namespace (\<open>ns = {}\<close>); its
  progress cursor is 0 and its \<open>snap_seqs\<close> is empty, a non-primary, incomplete snapshot
  that shadows no remote snapshot.
\<close>

definition default_MirrorSnapshotNamespace :: MirrorSnapshotNamespace where
  "default_MirrorSnapshotNamespace =
     \<lparr> state = MIRROR_SNAPSHOT_STATE_NON_PRIMARY, complete = False, mirror_peer_uuids = {},
       primary_mirror_uuid = [], primary_snap_id = CEPH_NOSNAP,
       last_copied_object_number = 0, snap_seqs = [] \<rparr>"

text \<open>
  A snapshot's namespace is a variant; \<open>boost::get<MirrorSnapshotNamespace>\<close> yields
  a null pointer for every alternative but the mirror one.
\<close>

datatype SnapshotNamespace =
    Mirror MirrorSnapshotNamespace
  | Other_Namespace

text \<open>\<open>snap_info\<close> is a \<open>std::map\<close>: the scans visit it in the order of the list.\<close>

type_synonym snap_info = "(snapid \<times> SnapshotNamespace) list"

text \<open>A \<open>Context*\<close> is an opaque callback; \<open>nullptr\<close> is \<open>None\<close>.\<close>

type_synonym Context = nat

type_synonym ImageState = nat

text \<open>
  What the replayer hands to its collaborators: requests it sends, callbacks it queues on
  the work queue or completes. The replayer appends each to its trace, in program order.
\<close>

datatype event =
    Queue_Context Context int
  | Complete_Context Context int
  | Queue_Notification
  | Register_Update_Watcher
  | Unregister_Update_Watcher
  | Wait_For_Ops
  | Refresh_Local_Image
  | Refresh_Remote_Image
  | SnapshotCopyRequest snapid snapid snapid bool
  | GetImageStateRequest snapid
  | CreateNonPrimaryRequest bool string snapid SnapSeqs ImageState
  | ImageCopyRequest snapid snapid snapid bool "64 word option" SnapSeqs
  | Set_Copy_Progress snapid bool "64 word"
  | Notify_Update
  | UnlinkPeerRequest snapid string

text \<open>
  A failed \<open>ceph_assert\<close> aborts the process (the text is the asserted expression); so
  does a call through a null pointer (the text is the pointer).
\<close>

datatype failure = Assert_Failed string | Null_Pointer string

text \<open>
  The replayer's members, the parts of the two image contexts it reads
  (\<open>snap_info\<close>, \<open>is_refresh_required\<close>), and the trace. \<open>update_during_scan\<close> is the
  schedule of the update-watcher thread: its head says whether
  \<open>handle_remote_image_update_notify\<close> runs while the next remote scan walks the
  snapshot map, between the scan's two critical sections.
\<close>

record replayer =
  m_local_mirror_uuid :: string
  remote_mirror_uuid :: string
  local_snap_info :: snap_info
  remote_snap_info :: snap_info
  local_refresh_required :: bool
  remote_refresh_required :: bool
  update_during_scan :: "bool list"
  m_state :: State
  m_error_code :: int
  m_error_description :: string
  m_remote_image_updated :: bool
  m_on_init_shutdown :: "Context option"
  m_update_watch_ctx :: bool
  m_progress_ctx :: bool
  m_remote_mirror_peer_uuid :: string
  m_local_snap_id_start :: snapid
  m_local_snap_id_end :: snapid
  m_local_mirror_snap_ns :: MirrorSnapshotNamespace
  m_remote_snap_id_start :: snapid
  m_remote_snap_id_end :: snapid
  m_remote_mirror_snap_ns :: MirrorSnapshotNamespace
  m_image_state :: ImageState
  trace :: "event list"

definition emit :: "event \<Rightarrow> replayer \<Rightarrow> replayer" where
  "emit e s = s\<lparr>trace := trace s @ [e]\<rparr>"

text \<open>
  Modelled from the spec: the members' initial values are given in the class declaration,
  outside the sources. A new replayer is in \<open>Init\<close> with no error latched, no callback
  pending and no plan; the constructor stores the local mirror uuid.
\<close>

definition new_Replayer :: "string \<Rightarrow> string \<Rightarrow> snap_info \<Rightarrow> snap_info \<Rightarrow> replayer" where
  "new_Replayer local_mirror_uuid remote_uuid local_snaps remote_snaps =
     \<lparr> m_local_mirror_uuid = local_mirror_uuid, remote_mirror_uuid = remote_uuid,
       local_snap_info = local_snaps, remote_snap_info = remote_snaps,
       local_refresh_required = False, remote_refresh_required = False,
       update_during_scan = [],
       m_state = STATE_INIT, m_error_code = 0, m_error_description = [],
       m_remote_image_updated = False, m_on_init_shutdown = None,
       m_update_watch_ctx = False, m_progress_ctx = False,
       m_remote_mirror_peer_uuid = [],
       m_local_snap_id_start = 0, m_local_snap_id_end = CEPH_NOSNAP,
       m_local_mirror_snap_ns = default_MirrorSnapshotNamespace,
       m_remote_snap_id_start = 0, m_remote_snap_id_end = CEPH_NOSNAP,
       m_remote_mirror_snap_ns = default_MirrorSnapshotNamespace,
       m_image_state = 0, trace = [] \<rparr>"

subsection \<open>Lifecycle: error latch, checkpoints, teardown\<close>

text \<open>\<open>notify_status_updated\<close>: queue a tracked notification for the listener.\<close>

definition notify_status_updated :: "replayer \<Rightarrow> replayer" where
  "notify_status_updated s = emit Queue_Notification s"

definition handle_replay_complete :: "int \<Rightarrow> string \<Rightarrow> replayer \<Rightarrow> replayer" where
  "handle_replay_complete r description s =
     (let s1 = (if m_error_code s = 0
                then s\<lparr>m_error_code := r, m_error_description := description\<rparr>
                else s)
      in if m_state s1 \<noteq> STATE_REPLAYING \<and> m_state s1 \<noteq> STATE_IDLE then s1
         else notify_status_updated (s1\<lparr>m_state := STATE_COMPLETE\<rparr>))"

definition unregister_update_watcher :: "replayer \<Rightarrow> replayer" where
  "unregister_update_watcher s = emit Unregister_Update_Watcher s"

definition wait_for_in_flight_ops :: "replayer \<Rightarrow> replayer" where
  "wait_for_in_flight_ops s = emit Wait_For_Ops s"

definition handle_unregister_update_watcher :: "int \<Rightarrow> replayer \<Rightarrow> replayer" where
  "handle_unregister_update_watcher r s =
     (let s1 = (if r < 0
                then handle_replay_complete r
                       ''failed to unregister remote image update watcher'' s
                else s)
      in wait_for_in_flight_ops (s1\<lparr>m_update_watch_ctx := False\<rparr>))"

definition handle_wait_for_in_flight_ops :: "int \<Rightarrow> replayer \<Rightarrow> failure + replayer" where
  "handle_wait_for_in_flight_ops r s =
     (case m_on_init_shutdown s of
        None \<Rightarrow> Inl (Assert_Failed ''m_on_init_shutdown != nullptr'')
      | Some on_shutdown \<Rightarrow>
          Inr (emit (Complete_Context on_shutdown (m_error_code s))
                 (s\<lparr>m_on_init_shutdown := None\<rparr>)))"

text \<open>
  \<open>is_replay_interrupted\<close>: the checkpoint. It answers whether the state is
  \<open>Complete\<close>, and if so it has started the teardown.
\<close>

definition is_replay_interrupted :: "replayer \<Rightarrow> bool \<times> replayer" where
  "is_replay_interrupted s =
     (if m_state s = STATE_COMPLETE then (True, unregister_update_watcher s)
      else (False, s))"

definition shut_down :: "Context \<Rightarrow> replayer \<Rightarrow> failure + replayer" where
  "shut_down on_finish s =
     (if m_on_init_shutdown s \<noteq> None
      then Inl (Assert_Failed ''m_on_init_shutdown == nullptr'')
      else
        let s1 = s\<lparr>m_on_init_shutdown := Some on_finish, m_error_code := 0,
                   m_error_description := []\<rparr>
        in if m_state s1 = STATE_INIT then Inl (Assert_Failed ''m_state != STATE_INIT'')
           else
             let state = m_state s1;
                 s2 = s1\<lparr>m_state := STATE_COMPLETE\<rparr>
             in if state = STATE_REPLAYING then Inr s2
                else Inr (unregister_update_watcher s2))"

definition register_update_watcher :: "replayer \<Rightarrow> replayer" where
  "register_update_watcher s = emit Register_Update_Watcher (s\<lparr>m_update_watch_ctx := True\<rparr>)"

text \<open>
  \<open>init\<close>. The arguments \<open>r\<close> and \<open>mirror_peer_uuid\<close> are what
  \<open>PoolMetaCache::get_remote_pool_meta\<close> returned and stored.
\<close>

definition init :: "Context \<Rightarrow> int \<Rightarrow> string \<Rightarrow> replayer \<Rightarrow> failure + replayer" where
  "init on_finish r mirror_peer_uuid s =
     (if m_state s \<noteq> STATE_INIT then Inl (Assert_Failed ''m_state == STATE_INIT'')
      else if r < 0 \<or> mirror_peer_uuid = []
      then Inr (emit (Queue_Context on_finish r) (s\<lparr>m_state := STATE_COMPLETE\<rparr>))
      else
        let s1 = s\<lparr>m_remote_mirror_peer_uuid := mirror_peer_uuid\<rparr>
        in if m_on_init_shutdown s1 \<noteq> None
           then Inl (Assert_Failed ''m_on_init_shutdown == nullptr'')
           else Inr (register_update_watcher (s1\<lparr>m_on_init_shutdown := Some on_finish\<rparr>)))"

subsection \<open>The executor's stages\<close>

text \<open>
  Each stage sends one request and returns; the request's completion calls the stage's
  handler with the result \<open>r\<close>. A request that has an output argument stores it through
  the pointer it was given before it completes (the \<open>finish_\<close> functions).
\<close>

definition copy_image :: "replayer \<Rightarrow> replayer" where
  "copy_image s =
     emit (ImageCopyRequest (m_remote_snap_id_start s) (m_remote_snap_id_end s)
             (m_local_snap_id_start s) False
             (if last_copied_object_number (m_local_mirror_snap_ns s) > 0
              then Some (last_copied_object_number (m_local_mirror_snap_ns s))
              else None)
             (snap_seqs (m_local_mirror_snap_ns s)))
       (s\<lparr>m_progress_ctx := True\<rparr>)"

definition handle_create_non_primary_snapshot :: "int \<Rightarrow> replayer \<Rightarrow> replayer" where
  "handle_create_non_primary_snapshot r s =
     (if r < 0 then handle_replay_complete r ''failed to create local mirror snapshot'' s
      else copy_image s)"

definition finish_CreateNonPrimaryRequest :: "int \<Rightarrow> snapid \<Rightarrow> replayer \<Rightarrow> replayer" where
  "finish_CreateNonPrimaryRequest r snap_id s =
     handle_create_non_primary_snapshot r (s\<lparr>m_local_snap_id_end := snap_id\<rparr>)"

definition create_non_primary_snapshot :: "replayer \<Rightarrow> replayer" where
  "create_non_primary_snapshot s =
     emit (CreateNonPrimaryRequest (is_demoted (m_remote_mirror_snap_ns s))
             (remote_mirror_uuid s) (m_remote_snap_id_end s)
             (snap_seqs (m_local_mirror_snap_ns s)) (m_image_state s)) s"

definition handle_get_image_state :: "int \<Rightarrow> replayer \<Rightarrow> replayer" where
  "handle_get_image_state r s =
     (if r < 0
      then handle_replay_complete r ''failed to retrieve remote snapshot image state'' s
      else create_non_primary_snapshot s)"

definition finish_GetImageStateRequest :: "int \<Rightarrow> ImageState \<Rightarrow> replayer \<Rightarrow> replayer" where
  "finish_GetImageStateRequest r image_state s =
     handle_get_image_state r (s\<lparr>m_image_state := image_state\<rparr>)"

definition get_image_state :: "replayer \<Rightarrow> replayer" where
  "get_image_state s = emit (GetImageStateRequest (m_remote_snap_id_end s)) s"

definition handle_copy_snapshots :: "int \<Rightarrow> replayer \<Rightarrow> replayer" where
  "handle_copy_snapshots r s =
     (if r < 0
      then handle_replay_complete r
             ''failed to copy snapshots from remote to local image'' s
      else get_image_state s)"

definition finish_SnapshotCopyRequest :: "int \<Rightarrow> SnapSeqs \<Rightarrow> replayer \<Rightarrow> replayer" where
  "finish_SnapshotCopyRequest r seqs s =
     handle_copy_snapshots r
       (s\<lparr>m_local_mirror_snap_ns := (m_local_mirror_snap_ns s)\<lparr>snap_seqs := seqs\<rparr>\<rparr>)"

definition copy_snapshots :: "replayer \<Rightarrow> failure + replayer" where
  "copy_snapshots s =
     (if \<not> (m_remote_snap_id_start s \<noteq> CEPH_NOSNAP)
      then Inl (Assert_Failed ''m_remote_snap_id_start != CEPH_NOSNAP'')
      else if \<not> (m_remote_snap_id_end s > 0 \<and> m_remote_snap_id_end s \<noteq> CEPH_NOSNAP)
      then Inl (Assert_Failed ''m_remote_snap_id_end > 0 && m_remote_snap_id_end != CEPH_NOSNAP'')
      else if \<not> (m_local_snap_id_start s \<noteq> CEPH_NOSNAP)
      then Inl (Assert_Failed ''m_local_snap_id_start != CEPH_NOSNAP'')
      else Inr (emit (SnapshotCopyRequest (m_remote_snap_id_start s) (m_remote_snap_id_end s)
                        (m_local_snap_id_start s) False)
                  (s\<lparr>m_local_mirror_snap_ns := default_MirrorSnapshotNamespace\<rparr>)))"

definition notify_image_update :: "replayer \<Rightarrow> replayer" where
  "notify_image_update s = emit Notify_Update s"

definition handle_update_non_primary_snapshot :: "bool \<Rightarrow> int \<Rightarrow> replayer \<Rightarrow> replayer" where
  "handle_update_non_primary_snapshot complete' r s =
     (if r < 0
      then handle_replay_complete r ''failed to update local snapshot progress'' s
      else notify_image_update s)"

text \<open>\<open>aio_operate\<close> accepts the operation (the source asserts that it returns 0).\<close>

definition update_non_primary_snapshot :: "bool \<Rightarrow> replayer \<Rightarrow> replayer" where
  "update_non_primary_snapshot complete' s =
     (let s1 = (if complete'
                then s\<lparr>m_local_mirror_snap_ns := (m_local_mirror_snap_ns s)\<lparr>complete := True\<rparr>\<rparr>
                else s)
      in emit (Set_Copy_Progress (m_local_snap_id_end s1)
                 (complete (m_local_mirror_snap_ns s1))
                 (last_copied_object_number (m_local_mirror_snap_ns s1))) s1)"

definition handle_copy_image :: "int \<Rightarrow> replayer \<Rightarrow> replayer" where
  "handle_copy_image r s =
     (let s1 = s\<lparr>m_progress_ctx := False\<rparr>
      in if r < 0 then handle_replay_complete r ''failed to copy remote image'' s1
         else update_non_primary_snapshot True s1)"

subsection \<open>The planner: local scan, remote scan\<close>

text \<open>
  A loop over a snapshot map, in the order of the map. One pass of the body ends with
  \<open>continue\<close> (or by reaching the end of the body), with \<open>break\<close>, by returning from
  the enclosing function, or in a failed assertion; the loop ends by running off the map
  or by \<open>break\<close>, by that return, or in that failure.
\<close>

datatype 'a iteration = Continue 'a | Break 'a | Return replayer | Abort failure

datatype 'a loop_exit = Fell_Through 'a | Returned replayer | Aborted failure

fun for_each ::
  "('k \<times> 'v) list \<Rightarrow> ('k \<Rightarrow> 'v \<Rightarrow> 'a \<Rightarrow> 'a iteration) \<Rightarrow> 'a \<Rightarrow> 'a loop_exit" where
  "for_each [] body a = Fell_Through a"
| "for_each ((k, v) # rest) body a =
     (case body k v a of
        Continue a' \<Rightarrow> for_each rest body a'
      | Break a' \<Rightarrow> Fell_Through a'
      | Return s \<Rightarrow> Returned s
      | Abort f \<Rightarrow> Aborted f)"

text \<open>The body of the loop of \<open>scan_local_mirror_snapshots\<close>.\<close>

definition scan_local_body ::
  "snapid \<Rightarrow> SnapshotNamespace \<Rightarrow> replayer \<Rightarrow> replayer iteration" where
  "scan_local_body local_snap_id snap_ns s =
     (case snap_ns of
        Other_Namespace \<Rightarrow> Continue s
      | Mirror mirror_ns \<Rightarrow>
          let s1 = s\<lparr>m_local_mirror_snap_ns := mirror_ns\<rparr>
          in if is_non_primary mirror_ns then
               if complete mirror_ns
               then Continue (s1\<lparr>m_local_snap_id_start := local_snap_id,
                                 m_local_snap_id_end := CEPH_NOSNAP\<rparr>)
               else Continue (s1\<lparr>m_local_snap_id_end := local_snap_id\<rparr>)
             else if is_primary mirror_ns then
               if complete mirror_ns
               then Continue (s1\<lparr>m_local_snap_id_start := local_snap_id,
                                 m_local_snap_id_end := CEPH_NOSNAP\<rparr>)
               else Return (handle_replay_complete (- EINVAL)
                              ''incomplete local primary snapshot'' s1)
             else Return (handle_replay_complete (- EINVAL)
                            ''invalid local mirror snapshot state'' s1))"

text \<open>
  The remote loop's skip region (the block guarded by "we have a local mirror snapshot"):
  \<open>continue\<close> with an updated start, fall out of the block to the peer test, or fail an
  assertion.
\<close>

datatype skip_verdict = Skip replayer | Past_Skip_Region | Skip_Abort failure

definition skip_synced_snapshot ::
  "snapid \<Rightarrow> MirrorSnapshotNamespace \<Rightarrow> replayer \<Rightarrow> skip_verdict" where
  "skip_synced_snapshot remote_snap_id mirror_ns s =
     (if m_local_snap_id_start s > 0 \<or> m_local_snap_id_end s \<noteq> CEPH_NOSNAP then
        if is_non_primary (m_local_mirror_snap_ns s) then
          if \<not> (primary_mirror_uuid (m_local_mirror_snap_ns s) = remote_mirror_uuid s)
          then Skip_Abort (Assert_Failed
                 ''m_local_mirror_snap_ns.primary_mirror_uuid == m_state_builder->remote_mirror_uuid'')
          else if complete (m_local_mirror_snap_ns s) \<and>
                  primary_snap_id (m_local_mirror_snap_ns s) \<ge> remote_snap_id
          then Skip (s\<lparr>m_remote_snap_id_start := remote_snap_id\<rparr>)
          else if \<not> complete (m_local_mirror_snap_ns s) \<and>
                  primary_snap_id (m_local_mirror_snap_ns s) > remote_snap_id
          then Skip (s\<lparr>m_remote_snap_id_start := remote_snap_id\<rparr>)
          else Past_Skip_Region
        else if state (m_local_mirror_snap_ns s) = MIRROR_SNAPSHOT_STATE_PRIMARY_DEMOTED then
          if \<not> (m_local_snap_id_start s > 0)
          then Skip_Abort (Assert_Failed ''m_local_snap_id_start > 0'')
          else if state mirror_ns = MIRROR_SNAPSHOT_STATE_NON_PRIMARY_DEMOTED \<and>
                  primary_mirror_uuid mirror_ns = m_local_mirror_uuid s \<and>
                  primary_snap_id mirror_ns = m_local_snap_id_start s
          then Skip (s\<lparr>m_remote_snap_id_start := remote_snap_id\<rparr>)
          else if m_remote_snap_id_start s = 0 then Skip s
          else Past_Skip_Region
        else Skip_Abort (Assert_Failed ''false'')
      else Past_Skip_Region)"

text \<open>
  The body of the loop of \<open>scan_remote_mirror_snapshots\<close>; the loop carries the local
  variable \<open>remote_demoted\<close> beside the replayer.
\<close>

definition scan_remote_body ::
  "snapid \<Rightarrow> SnapshotNamespace \<Rightarrow> replayer \<times> bool \<Rightarrow> (replayer \<times> bool) iteration" where
  "scan_remote_body remote_snap_id snap_ns a =
     (case a of (s, remote_demoted) \<Rightarrow>
      (case snap_ns of
         Other_Namespace \<Rightarrow> Continue (s, remote_demoted)
       | Mirror mirror_ns \<Rightarrow>
           if \<not> is_primary mirror_ns \<and> \<not> is_non_primary mirror_ns
           then Return (handle_replay_complete (- EINVAL)
                          ''invalid remote mirror snapshot state'' s)
           else
             let remote_demoted' = (is_primary mirror_ns \<and> is_demoted mirror_ns)
             in (case skip_synced_snapshot remote_snap_id mirror_ns s of
                   Skip_Abort f \<Rightarrow> Abort f
                 | Skip s1 \<Rightarrow> Continue (s1, remote_demoted')
                 | Past_Skip_Region \<Rightarrow>
                     if \<not> is_primary mirror_ns
                     then Continue (s, remote_demoted')
                     else if m_remote_mirror_peer_uuid s \<notin> mirror_peer_uuids mirror_ns
                     then Continue (s, remote_demoted')
                     else Break (s\<lparr>m_remote_snap_id_end := remote_snap_id,
                                    m_remote_mirror_snap_ns := mirror_ns\<rparr>,
                                 remote_demoted'))))"

text \<open>
  The update watcher while a scan walks the snapshot map. During a scan the state is
  \<open>Replaying\<close> (or \<open>Complete\<close> after a shut-down), so of
  \<open>handle_remote_image_update_notify\<close> only the flagging branch can run.
\<close>

definition watcher_during_scan :: "replayer \<Rightarrow> replayer" where
  "watcher_during_scan s =
     (case update_during_scan s of
        [] \<Rightarrow> s
      | notified # rest \<Rightarrow>
          let s1 = s\<lparr>update_during_scan := rest\<rparr>
          in if notified \<and> m_state s1 = STATE_REPLAYING
             then s1\<lparr>m_remote_image_updated := True\<rparr>
             else s1)"

text \<open>A property that every pass of the body preserves holds when the loop falls through.\<close>

lemma for_each_invariant:
  assumes "for_each xs body a = Fell_Through a'" and "P a"
    and "\<And>k v x y. P x \<Longrightarrow> body k v x = Continue y \<or> body k v x = Break y \<Longrightarrow> P y"
  shows "P a'"
  using assms(1,2)
proof (induction xs arbitrary: a)
  case Nil
  then show ?case by simp
next
  case (Cons kv xs)
  obtain k v where kv: "kv = (k, v)" by (cases kv)
  show ?case
  proof (cases "body k v a")
    case (Continue y)
    with Cons.prems kv have "for_each xs body y = Fell_Through a'" by simp
    moreover from Continue Cons.prems(2) assms(3) have "P y" by blast
    ultimately show ?thesis by (rule Cons.IH)
  next
    case (Break y)
    with Cons.prems kv have "a' = y" by simp
    with Break Cons.prems(2) assms(3) show ?thesis by blast
  next
    case (Return s)
    with Cons.prems kv show ?thesis by simp
  next
    case (Abort f)
    with Cons.prems kv show ?thesis by simp
  qed
qed

text \<open>
  What the loops leave alone. A pass of the local body that goes on changes only the
  local plan; a pass of the remote body that goes on changes only the remote plan.
\<close>

definition local_plan_only :: "replayer \<Rightarrow> replayer \<Rightarrow> bool" where
  "local_plan_only s s' =
     (s' = s\<lparr>m_local_mirror_snap_ns := m_local_mirror_snap_ns s',
              m_local_snap_id_start := m_local_snap_id_start s',
              m_local_snap_id_end := m_local_snap_id_end s'\<rparr>)"

definition remote_plan_only :: "replayer \<Rightarrow> replayer \<Rightarrow> bool" where
  "remote_plan_only s s' =
     (s' = s\<lparr>m_remote_mirror_snap_ns := m_remote_mirror_snap_ns s',
              m_remote_snap_id_start := m_remote_snap_id_start s',
              m_remote_snap_id_end := m_remote_snap_id_end s'\<rparr>)"

lemma local_plan_only_refl: "local_plan_only s s"
  by (simp add: local_plan_only_def)

lemma remote_plan_only_refl: "remote_plan_only s s"
  by (simp add: remote_plan_only_def)

lemma scan_local_body_frame:
  assumes "scan_local_body i ns x = Continue y \<or> scan_local_body i ns x = Break y"
    and "local_plan_only s x"
  shows "local_plan_only s y"
proof (cases ns)
  case Other_Namespace
  with assms show ?thesis by (simp add: scan_local_body_def)
next
  case (Mirror mirror_ns)
  from assms(2) have x: "x = s\<lparr>m_local_mirror_snap_ns := m_local_mirror_snap_ns x,
      m_local_snap_id_start := m_local_snap_id_start x,
      m_local_snap_id_end := m_local_snap_id_end x\<rparr>"
    by (simp add: local_plan_only_def)
  from assms(1) Mirror
  have "y = x\<lparr>m_local_mirror_snap_ns := m_local_mirror_snap_ns y,
      m_local_snap_id_start := m_local_snap_id_start y,
      m_local_snap_id_end := m_local_snap_id_end y\<rparr>"
    by (auto simp: scan_local_body_def Let_def split: if_split_asm)
  then have "y = (s\<lparr>m_local_mirror_snap_ns := m_local_mirror_snap_ns x,
      m_local_snap_id_start := m_local_snap_id_start x,
      m_local_snap_id_end := m_local_snap_id_end x\<rparr>)\<lparr>m_local_mirror_snap_ns := m_local_mirror_snap_ns y,
      m_local_snap_id_start := m_local_snap_id_start y,
      m_local_snap_id_end := m_local_snap_id_end y\<rparr>"
    using x by simp
  then show ?thesis by (simp add: local_plan_only_def)
qed

lemma scan_local_loop_frame:
  assumes "for_each xs scan_local_body s = Fell_Through s'"
  shows "local_plan_only s s'"
  using assms local_plan_only_refl scan_local_body_frame
  by (rule for_each_invariant [where P = "local_plan_only s"])

lemma skip_synced_snapshot_frame:
  "skip_synced_snapshot i ns x = Skip y \<Longrightarrow> y = x \<or> y = x\<lparr>m_remote_snap_id_start := i\<rparr>"
  by (simp add: skip_synced_snapshot_def split: if_split_asm)

lemma scan_remote_body_frame:
  assumes "scan_remote_body i ns x = Continue y \<or> scan_remote_body i ns x = Break y"
    and "remote_plan_only s (fst x)"
  shows "remote_plan_only s (fst y)"
proof (cases ns)
  case Other_Namespace
  with assms show ?thesis by (auto simp: scan_remote_body_def split: prod.splits)
next
  case (Mirror mirror_ns)
  obtain x1 d where xd: "x = (x1, d)" by (cases x)
  from assms(2) xd have x: "x1 = s\<lparr>m_remote_mirror_snap_ns := m_remote_mirror_snap_ns x1,
      m_remote_snap_id_start := m_remote_snap_id_start x1,
      m_remote_snap_id_end := m_remote_snap_id_end x1\<rparr>"
    by (simp add: remote_plan_only_def)
  have "fst y = x1\<lparr>m_remote_mirror_snap_ns := m_remote_mirror_snap_ns (fst y),
      m_remote_snap_id_start := m_remote_snap_id_start (fst y),
      m_remote_snap_id_end := m_remote_snap_id_end (fst y)\<rparr>"
  proof (cases "skip_synced_snapshot i mirror_ns x1")
    case (Skip z)
    from skip_synced_snapshot_frame [OF Skip] assms(1) Mirror xd Skip show ?thesis
      by (auto simp: scan_remote_body_def Let_def split: if_split_asm)
  next
    case Past_Skip_Region
    with assms(1) Mirror xd show ?thesis
      by (auto simp: scan_remote_body_def Let_def split: if_split_asm)
  next
    case (Skip_Abort f)
    with assms(1) Mirror xd show ?thesis
      by (auto simp: scan_remote_body_def Let_def split: if_split_asm)
  qed
  then have "fst y = (s\<lparr>m_remote_mirror_snap_ns := m_remote_mirror_snap_ns x1,
      m_remote_snap_id_start := m_remote_snap_id_start x1,
      m_remote_snap_id_end := m_remote_snap_id_end x1\<rparr>)\<lparr>m_remote_mirror_snap_ns := m_remote_mirror_snap_ns (fst y),
      m_remote_snap_id_start := m_remote_snap_id_start (fst y),
      m_remote_snap_id_end := m_remote_snap_id_end (fst y)\<rparr>"
    using x by simp
  then show ?thesis by (simp add: remote_plan_only_def)
qed

lemma scan_remote_loop_frame:
  assumes "for_each xs scan_remote_body (s, d) = Fell_Through (s', d')"
  shows "remote_plan_only s s'"
proof -
  have "remote_plan_only s (fst (s', d'))"
    using assms _ scan_remote_body_frame
    by (rule for_each_invariant [where P = "\<lambda>x. remote_plan_only s (fst x)"])
       (simp add: remote_plan_only_refl)
  then show ?thesis by simp
qed

lemma local_plan_only_schedule:
  "local_plan_only s s' \<Longrightarrow> update_during_scan s' = update_during_scan s"
  unfolding local_plan_only_def by (erule ssubst) simp

lemma remote_plan_only_schedule:
  "remote_plan_only s s' \<Longrightarrow>
     update_during_scan s' = update_during_scan s \<and>
     m_remote_image_updated s' = m_remote_image_updated s"
  unfolding remote_plan_only_def by (erule ssubst) simp

lemma watcher_during_scan_flagged:
  "m_remote_image_updated (watcher_during_scan (s\<lparr>m_remote_image_updated := False\<rparr>)) \<Longrightarrow>
     length (update_during_scan (watcher_during_scan (s\<lparr>m_remote_image_updated := False\<rparr>)))
       < length (update_during_scan s)"
  by (auto simp: watcher_during_scan_def Let_def split: list.splits if_splits)

text \<open>The first statements of \<open>scan_local_mirror_snapshots\<close>: forget the last plan.\<close>

definition reset_plan :: "replayer \<Rightarrow> replayer" where
  "reset_plan s =
     s\<lparr>m_local_snap_id_start := 0, m_local_snap_id_end := CEPH_NOSNAP,
       m_local_mirror_snap_ns := default_MirrorSnapshotNamespace,
       m_remote_snap_id_start := 0, m_remote_snap_id_end := CEPH_NOSNAP,
       m_remote_mirror_snap_ns := default_MirrorSnapshotNamespace\<rparr>"

text \<open>
  The planner. Its four functions call each other: a remote scan that was notified while
  it walked the map restarts at \<open>refresh_local_image\<close>. Each restart consumes one entry
  of the watcher's schedule, which is what bounds the recursion. In the remote scan the
  source's nested test (an end snapshot was found; it is complete) is one conjunction
  here: in the source both ways out of the nested test that do not return fall to the
  same statements.
\<close>

function refresh_local_image :: "replayer \<Rightarrow> failure + replayer"
  and refresh_remote_image :: "replayer \<Rightarrow> failure + replayer"
  and scan_local_mirror_snapshots :: "replayer \<Rightarrow> failure + replayer"
  and scan_remote_mirror_snapshots :: "replayer \<Rightarrow> failure + replayer"
where
  "refresh_local_image s =
     (if \<not> local_refresh_required s then refresh_remote_image s
      else Inr (emit Refresh_Local_Image s))"
| "refresh_remote_image s =
     (if \<not> remote_refresh_required s then scan_local_mirror_snapshots s
      else Inr (emit Refresh_Remote_Image s))"
| "scan_local_mirror_snapshots s =
     (case is_replay_interrupted s of
        (True, s0) \<Rightarrow> Inr s0
      | (False, s0) \<Rightarrow>
          let s1 = reset_plan s0
          in (case for_each (local_snap_info s1) scan_local_body s1 of
               Aborted f \<Rightarrow> Inl f
             | Returned s2 \<Rightarrow> Inr s2
             | Fell_Through s2 \<Rightarrow>
                 if m_local_snap_id_start s2 > 0 \<or> m_local_snap_id_end s2 \<noteq> CEPH_NOSNAP then
                   if is_non_primary (m_local_mirror_snap_ns s2) \<and>
                      primary_mirror_uuid (m_local_mirror_snap_ns s2) \<noteq> remote_mirror_uuid s2
                   then Inr (handle_replay_complete (- EEXIST)
                               ''local image linked to unknown peer'' s2)
                   else if state (m_local_mirror_snap_ns s2) = MIRROR_SNAPSHOT_STATE_PRIMARY
                   then Inr (handle_replay_complete 0 ''force promoted'' s2)
                   else if complete (m_local_mirror_snap_ns s2)
                   then scan_remote_mirror_snapshots
                          (s2\<lparr>m_remote_snap_id_start :=
                                 primary_snap_id (m_local_mirror_snap_ns s2)\<rparr>)
                   else scan_remote_mirror_snapshots s2
                 else scan_remote_mirror_snapshots s2))"
| "scan_remote_mirror_snapshots s =
     (let s1 = watcher_during_scan (s\<lparr>m_remote_image_updated := False\<rparr>)
      in case for_each (remote_snap_info s1) scan_remote_body (s1, False) of
           Aborted f \<Rightarrow> Inl f
         | Returned s2 \<Rightarrow> Inr s2
         | Fell_Through (s2, remote_demoted) \<Rightarrow>
             if m_remote_snap_id_end s2 \<noteq> CEPH_NOSNAP \<and>
                complete (m_remote_mirror_snap_ns s2)
             then
               if m_local_snap_id_end s2 \<noteq> CEPH_NOSNAP \<and>
                  \<not> complete (m_local_mirror_snap_ns s2)
               then Inr (copy_image s2)
               else copy_snapshots s2
             else if m_remote_image_updated s2
             then refresh_local_image (s2\<lparr>m_remote_image_updated := False\<rparr>)
             else
               (case is_replay_interrupted s2 of
                 (True, s3) \<Rightarrow> Inr s3
               | (False, s3) \<Rightarrow>
                   if remote_demoted
                   then Inr (handle_replay_complete 0 ''remote image demoted'' s3)
                   else if \<not> (m_state s3 = STATE_REPLAYING)
                   then Inl (Assert_Failed ''m_state == STATE_REPLAYING'')
                   else Inr (notify_status_updated (s3\<lparr>m_state := STATE_IDLE\<rparr>))))"
  by pat_completeness auto


termination
proof (relation "measure (\<lambda>x. case x of
    Inl (Inl s) \<Rightarrow> 4 * length (update_during_scan s) + 3
  | Inl (Inr s) \<Rightarrow> 4 * length (update_during_scan s) + 2
  | Inr (Inl s) \<Rightarrow> 4 * length (update_during_scan s) + 1
  | Inr (Inr s) \<Rightarrow> 4 * length (update_during_scan s))", goal_cases)
  case 1 show ?case by simp
next
  case 2 then show ?case by simp
next
  case 3 then show ?case by simp
next
  case (4 s b s0 s1 s2)
  then show ?case
    by (auto simp: is_replay_interrupted_def reset_plan_def split: if_split_asm
             dest!: scan_local_loop_frame local_plan_only_schedule)
next
  case (5 s b s0 s1 s2)
  then show ?case
    by (auto simp: is_replay_interrupted_def reset_plan_def split: if_split_asm
             dest!: scan_local_loop_frame local_plan_only_schedule)
next
  case (6 s b s0 s1 s2)
  then show ?case
    by (auto simp: is_replay_interrupted_def reset_plan_def split: if_split_asm
             dest!: scan_local_loop_frame local_plan_only_schedule)
next
  case (7 s s1 a s2 d)
  then have "for_each (remote_snap_info s1) scan_remote_body (s1, False) = Fell_Through (s2, d)"
    by simp
  then have "remote_plan_only s1 s2" by (rule scan_remote_loop_frame)
  from remote_plan_only_schedule [OF this] 7 watcher_during_scan_flagged [of s]
  show ?case by simp
qed

declare refresh_local_image.simps [simp del] refresh_remote_image.simps [simp del]
  scan_local_mirror_snapshots.simps [simp del] scan_remote_mirror_snapshots.simps [simp del]

definition handle_refresh_local_image :: "int \<Rightarrow> replayer \<Rightarrow> failure + replayer" where
  "handle_refresh_local_image r s =
     (if r < 0 then Inr (handle_replay_complete r ''failed to refresh local image'' s)
      else refresh_remote_image s)"

definition handle_refresh_remote_image :: "int \<Rightarrow> replayer \<Rightarrow> failure + replayer" where
  "handle_refresh_remote_image r s =
     (if r < 0 then Inr (handle_replay_complete r ''failed to refresh remote image'' s)
      else scan_local_mirror_snapshots s)"

subsection \<open>After the copy: unlink the peer, re-enter the planner\<close>

definition unlink_peer :: "replayer \<Rightarrow> failure + replayer" where
  "unlink_peer s =
     (if m_remote_snap_id_start s = 0 then refresh_local_image (notify_status_updated s)
      else Inr (emit (UnlinkPeerRequest (m_remote_snap_id_start s)
                        (m_remote_mirror_peer_uuid s)) s))"

definition handle_unlink_peer :: "int \<Rightarrow> replayer \<Rightarrow> failure + replayer" where
  "handle_unlink_peer r s =
     (if r < 0 \<and> r \<noteq> - ENOENT
      then Inr (handle_replay_complete r
                  ''failed to unlink local peer from remote image'' s)
      else refresh_local_image (notify_status_updated s))"

definition handle_notify_image_update :: "int \<Rightarrow> replayer \<Rightarrow> failure + replayer" where
  "handle_notify_image_update r s =
     (case is_replay_interrupted s of
        (True, s1) \<Rightarrow> Inr s1
      | (False, s1) \<Rightarrow> unlink_peer s1)"

subsection \<open>The update watcher\<close>

definition handle_register_update_watcher :: "int \<Rightarrow> replayer \<Rightarrow> failure + replayer" where
  "handle_register_update_watcher r s =
     (let s1 = (if r < 0
                then (handle_replay_complete r
                        ''failed to register remote image update watcher'' s)
                       \<lparr>m_state := STATE_COMPLETE, m_update_watch_ctx := False\<rparr>
                else s\<lparr>m_state := STATE_REPLAYING\<rparr>)
      in case m_on_init_shutdown s1 of
           None \<Rightarrow> Inl (Null_Pointer ''on_init'')
         | Some on_init \<Rightarrow>
             let s2 = emit (Complete_Context on_init r) (s1\<lparr>m_on_init_shutdown := None\<rparr>)
             in if r \<ge> 0 then refresh_local_image (notify_status_updated s2)
                else Inr s2)"

definition handle_remote_image_update_notify :: "replayer \<Rightarrow> failure + replayer" where
  "handle_remote_image_update_notify s =
     (if m_state s = STATE_REPLAYING then Inr (s\<lparr>m_remote_image_updated := True\<rparr>)
      else if m_state s = STATE_IDLE then refresh_local_image (s\<lparr>m_state := STATE_REPLAYING\<rparr>)
      else Inr s)"

text \<open>
  While a scan runs the state is not \<open>Idle\<close>, and there a notification does what
  \<open>watcher_during_scan\<close> does with a schedule entry that announces one.
\<close>

lemma watcher_during_scan_notify:
  assumes "update_during_scan s = True # rest" and "m_state s \<noteq> STATE_IDLE"
  shows "handle_remote_image_update_notify (s\<lparr>update_during_scan := rest\<rparr>)
         = Inr (watcher_during_scan s)"
  using assms
  by (simp add: handle_remote_image_update_notify_def watcher_during_scan_def Let_def)

subsection \<open>Delivering callbacks\<close>

text \<open>
  The work queue delivers the next callback to the replayer a call has left behind; after
  a failed assertion there is no process to deliver to.
\<close>

definition then_call ::
  "failure + replayer \<Rightarrow> (replayer \<Rightarrow> failure + replayer) \<Rightarrow> failure + replayer" where
  "then_call x f = (case x of Inl e \<Rightarrow> Inl e | Inr s \<Rightarrow> f s)"

text \<open>The \<open>UnlinkPeer\<close> requests in a replayer's trace.\<close>

fun is_unlink :: "event \<Rightarrow> bool" where
  "is_unlink (UnlinkPeerRequest i u) = True"
| "is_unlink e = False"

definition unlink_requests :: "replayer \<Rightarrow> event list" where
  "unlink_requests s = filter is_unlink (trace s)"

text \<open>
  A full sync in which every request succeeds, from \<open>copy_snapshots\<close> to the completion
  of the progress update that marks the local snapshot complete: the snapshot copy stores
  \<open>seqs\<close>, the image-state request \<open>image_state\<close>, the snapshot creation
  \<open>local_snap_id\<close>. What is left in flight is the notification of the local image.
\<close>

definition successful_sync ::
  "SnapSeqs \<Rightarrow> ImageState \<Rightarrow> snapid \<Rightarrow> replayer \<Rightarrow> failure + replayer" where
  "successful_sync seqs image_state local_snap_id s =
     then_call (copy_snapshots s)
       (Inr \<circ> handle_update_non_primary_snapshot True 0 \<circ> handle_copy_image 0 \<circ>
        finish_CreateNonPrimaryRequest 0 local_snap_id \<circ>
        finish_GetImageStateRequest 0 image_state \<circ> finish_SnapshotCopyRequest 0 seqs)"

text \<open>
  The mirror snapshots of a snapshot map, in its order, and what the local scan accepts:
  a stored snapshot id is neither 0 nor the head sentinel, and a local mirror snapshot is
  non-primary, or primary and complete.
\<close>

fun mirror_snapshots :: "snap_info \<Rightarrow> (snapid \<times> MirrorSnapshotNamespace) list" where
  "mirror_snapshots [] = []"
| "mirror_snapshots ((i, Mirror ns) # xs) = (i, ns) # mirror_snapshots xs"
| "mirror_snapshots ((i, Other_Namespace) # xs) = mirror_snapshots xs"

definition local_snapshot_ok :: "snapid \<times> MirrorSnapshotNamespace \<Rightarrow> bool" where
  "local_snapshot_ok x =
     (fst x \<noteq> 0 \<and> fst x \<noteq> CEPH_NOSNAP \<and>
      (is_non_primary (snd x) \<or> is_primary (snd x) \<and> complete (snd x)))"

text \<open>
  The local plan after a scan of accepted snapshots \<open>ms\<close>, started in \<open>s\<close>: the last
  mirror snapshot is cached; if it is complete it is the start and the end is the head,
  otherwise it is the end.
\<close>

definition local_plan_of ::
  "(snapid \<times> MirrorSnapshotNamespace) list \<Rightarrow> replayer \<Rightarrow> replayer \<Rightarrow> bool" where
  "local_plan_of ms s l =
     (if ms = [] then l = s
      else m_local_mirror_snap_ns l = snd (last ms) \<and>
           (if complete (snd (last ms))
            then m_local_snap_id_start l = fst (last ms) \<and> m_local_snap_id_end l = CEPH_NOSNAP
            else m_local_snap_id_end l = fst (last ms)))"

section \<open>Properties\<close>

subsection \<open>Facts about the planner\<close>

text \<open>The planner's two scans, once their loop has fallen through.\<close>

lemma scan_local_mirror_snapshots_fell_through:
  assumes "m_state s \<noteq> STATE_COMPLETE"
    and "for_each (local_snap_info s) scan_local_body (reset_plan s) = Fell_Through l"
  shows "scan_local_mirror_snapshots s =
        (if m_local_snap_id_start l > 0 \<or> m_local_snap_id_end l \<noteq> CEPH_NOSNAP then
           if is_non_primary (m_local_mirror_snap_ns l) \<and>
              primary_mirror_uuid (m_local_mirror_snap_ns l) \<noteq> remote_mirror_uuid l
           then Inr (handle_replay_complete (- EEXIST)
                       ''local image linked to unknown peer'' l)
           else if state (m_local_mirror_snap_ns l) = MIRROR_SNAPSHOT_STATE_PRIMARY
           then Inr (handle_replay_complete 0 ''force promoted'' l)
           else if complete (m_local_mirror_snap_ns l)
           then scan_remote_mirror_snapshots
                  (l\<lparr>m_remote_snap_id_start := primary_snap_id (m_local_mirror_snap_ns l)\<rparr>)
           else scan_remote_mirror_snapshots l
         else scan_remote_mirror_snapshots l)"
proof -
  have "local_snap_info (reset_plan s) = local_snap_info s"
    by (simp add: reset_plan_def)
  with assms show ?thesis
    by (simp add: scan_local_mirror_snapshots.simps is_replay_interrupted_def)
qed

lemma scan_remote_mirror_snapshots_fell_through:
  assumes "for_each (remote_snap_info s) scan_remote_body
             (watcher_during_scan (s\<lparr>m_remote_image_updated := False\<rparr>), False)
           = Fell_Through (e, d)"
  shows "scan_remote_mirror_snapshots s =
       (if m_remote_snap_id_end e \<noteq> CEPH_NOSNAP \<and> complete (m_remote_mirror_snap_ns e)
        then
          if m_local_snap_id_end e \<noteq> CEPH_NOSNAP \<and> \<not> complete (m_local_mirror_snap_ns e)
          then Inr (copy_image e)
          else copy_snapshots e
        else if m_remote_image_updated e
        then refresh_local_image (e\<lparr>m_remote_image_updated := False\<rparr>)
        else if m_state e = STATE_COMPLETE then Inr (unregister_update_watcher e)
        else if d then Inr (handle_replay_complete 0 ''remote image demoted'' e)
        else if m_state e \<noteq> STATE_REPLAYING
        then Inl (Assert_Failed ''m_state == STATE_REPLAYING'')
        else Inr (notify_status_updated (e\<lparr>m_state := STATE_IDLE\<rparr>)))"
proof -
  have "remote_snap_info (watcher_during_scan (s\<lparr>m_remote_image_updated := False\<rparr>))
        = remote_snap_info s"
    by (simp add: watcher_during_scan_def Let_def split: list.split)
  with assms show ?thesis
    by (simp add: scan_remote_mirror_snapshots.simps Let_def is_replay_interrupted_def)
qed

lemma scan_local_body_ok:
  assumes "local_snapshot_ok (i, ns)"
  shows "\<exists>s1. scan_local_body i (Mirror ns) s = Continue s1 \<and> local_plan_of [(i, ns)] s s1"
  using assms
  by (auto simp: scan_local_body_def local_snapshot_ok_def local_plan_of_def Let_def
      is_primary_def is_non_primary_def)

lemma scan_local_loop_last:
  assumes "list_all local_snapshot_ok (mirror_snapshots xs)"
  shows "\<exists>l. for_each xs scan_local_body s = Fell_Through l \<and>
             local_plan_of (mirror_snapshots xs) s l"
  using assms
proof (induction xs arbitrary: s)
  case Nil
  then show ?case by (simp add: local_plan_of_def)
next
  case (Cons kv xs)
  obtain k v where kv: "kv = (k, v)" by (cases kv)
  show ?case
  proof (cases v)
    case Other_Namespace
    with Cons kv show ?thesis by (simp add: scan_local_body_def)
  next
    case (Mirror ns)
    with Cons.prems kv have ok: "local_snapshot_ok (k, ns)"
      and rest: "list_all local_snapshot_ok (mirror_snapshots xs)" by simp_all
    from scan_local_body_ok [OF ok, of s] obtain s1 where
      s1: "scan_local_body k (Mirror ns) s = Continue s1" "local_plan_of [(k, ns)] s s1"
      by blast
    from Cons.IH [OF rest, of s1] obtain l where
      l: "for_each xs scan_local_body s1 = Fell_Through l"
         "local_plan_of (mirror_snapshots xs) s1 l"
      by blast
    from s1(2) l(2) have "local_plan_of ((k, ns) # mirror_snapshots xs) s l"
      by (auto simp: local_plan_of_def split: if_split_asm)
    with s1(1) l(1) kv Mirror show ?thesis by simp
  qed
qed

lemma local_plan_only_same:
  "local_plan_only s l \<Longrightarrow>
     m_state l = m_state s \<and> m_error_code l = m_error_code s \<and>
     m_error_description l = m_error_description s \<and> trace l = trace s \<and>
     remote_mirror_uuid l = remote_mirror_uuid s \<and>
     m_local_mirror_uuid l = m_local_mirror_uuid s \<and>
     m_remote_mirror_peer_uuid l = m_remote_mirror_peer_uuid s \<and>
     local_snap_info l = local_snap_info s \<and> remote_snap_info l = remote_snap_info s \<and>
     m_remote_image_updated l = m_remote_image_updated s \<and>
     update_during_scan l = update_during_scan s \<and>
     m_on_init_shutdown l = m_on_init_shutdown s \<and>
     m_remote_snap_id_start l = m_remote_snap_id_start s \<and>
     m_remote_snap_id_end l = m_remote_snap_id_end s \<and>
     m_remote_mirror_snap_ns l = m_remote_mirror_snap_ns s"
  unfolding local_plan_only_def by (erule ssubst) simp

lemma remote_plan_only_same:
  "remote_plan_only s e \<Longrightarrow>
     m_state e = m_state s \<and> m_error_code e = m_error_code s \<and>
     m_error_description e = m_error_description s \<and> trace e = trace s \<and>
     remote_mirror_uuid e = remote_mirror_uuid s \<and>
     m_local_mirror_uuid e = m_local_mirror_uuid s \<and>
     m_remote_mirror_peer_uuid e = m_remote_mirror_peer_uuid s \<and>
     local_snap_info e = local_snap_info s \<and> remote_snap_info e = remote_snap_info s \<and>
     m_remote_image_updated e = m_remote_image_updated s \<and>
     update_during_scan e = update_during_scan s \<and>
     m_on_init_shutdown e = m_on_init_shutdown s \<and>
     m_local_snap_id_start e = m_local_snap_id_start s \<and>
     m_local_snap_id_end e = m_local_snap_id_end s \<and>
     m_local_mirror_snap_ns e = m_local_mirror_snap_ns s"
  unfolding remote_plan_only_def by (erule ssubst) simp


lemma watcher_during_scan_same:
  "trace (watcher_during_scan s) = trace s \<and>
   m_state (watcher_during_scan s) = m_state s \<and>
   m_error_code (watcher_during_scan s) = m_error_code s \<and>
   m_error_description (watcher_during_scan s) = m_error_description s \<and>
   m_local_snap_id_start (watcher_during_scan s) = m_local_snap_id_start s \<and>
   m_local_snap_id_end (watcher_during_scan s) = m_local_snap_id_end s \<and>
   m_local_mirror_snap_ns (watcher_during_scan s) = m_local_mirror_snap_ns s \<and>
   m_remote_snap_id_start (watcher_during_scan s) = m_remote_snap_id_start s \<and>
   m_remote_snap_id_end (watcher_during_scan s) = m_remote_snap_id_end s"
  by (simp add: watcher_during_scan_def Let_def split: list.split)


text \<open>The definitions to unfold to run the planner on a given replayer.\<close>

lemmas planner_eval =
  scan_local_mirror_snapshots.simps scan_remote_mirror_snapshots.simps
  refresh_local_image.simps refresh_remote_image.simps
  is_replay_interrupted_def reset_plan_def scan_local_body_def scan_remote_body_def
  skip_synced_snapshot_def watcher_during_scan_def handle_replay_complete_def
  notify_status_updated_def unregister_update_watcher_def copy_image_def copy_snapshots_def
  emit_def is_primary_def is_non_primary_def is_demoted_def Let_def
  EINVAL_def EEXIST_def CEPH_NOSNAP_def default_MirrorSnapshotNamespace_def new_Replayer_def


text \<open>The remote loop's \<open>remote_demoted\<close> when the loop has accepted no end snapshot.\<close>

lemma scan_remote_body_other:
  "scan_remote_body k Other_Namespace (s, d) = Continue (s, d)"
  by (simp add: scan_remote_body_def)

lemma scan_remote_body_no_break:
  assumes "scan_remote_body k (Mirror m) (s, d0) = Continue (s1, d1) \<or>
           scan_remote_body k (Mirror m) (s, d0) = Break (s1, d1)"
    and "k \<noteq> CEPH_NOSNAP" and "m_remote_snap_id_end s = CEPH_NOSNAP"
    and "m_remote_snap_id_end s1 = CEPH_NOSNAP"
  shows "scan_remote_body k (Mirror m) (s, d0) = Continue (s1, d1) \<and>
         d1 = (is_primary m \<and> is_demoted m)"
proof (cases "skip_synced_snapshot k m s")
  case (Skip z)
  with assms show ?thesis
    by (auto simp: scan_remote_body_def Let_def split: if_split_asm)
next
  case Past_Skip_Region
  with assms show ?thesis
    by (auto simp: scan_remote_body_def Let_def split: if_split_asm)
next
  case (Skip_Abort f)
  with assms show ?thesis
    by (auto simp: scan_remote_body_def Let_def split: if_split_asm)
qed

lemma scan_remote_body_end:
  assumes "scan_remote_body k v (s, d0) = Continue (s1, d1)"
  shows "m_remote_snap_id_end s1 = m_remote_snap_id_end s"
proof (cases v)
  case Other_Namespace
  with assms show ?thesis by (simp add: scan_remote_body_def)
next
  case (Mirror m)
  show ?thesis
  proof (cases "skip_synced_snapshot k m s")
    case (Skip z)
    from skip_synced_snapshot_frame [OF Skip] assms Mirror Skip show ?thesis
      by (auto simp: scan_remote_body_def Let_def split: if_split_asm)
  next
    case Past_Skip_Region
    with assms Mirror show ?thesis
      by (auto simp: scan_remote_body_def Let_def split: if_split_asm)
  next
    case (Skip_Abort f)
    with assms Mirror show ?thesis
      by (auto simp: scan_remote_body_def Let_def split: if_split_asm)
  qed
qed

lemma scan_remote_loop_demoted:
  assumes "for_each xs scan_remote_body (s, d0) = Fell_Through (e, d)"
    and "list_all (\<lambda>x. fst x \<noteq> CEPH_NOSNAP) (mirror_snapshots xs)"
    and "m_remote_snap_id_end s = CEPH_NOSNAP"
    and "m_remote_snap_id_end e = CEPH_NOSNAP"
  shows "d = (if mirror_snapshots xs = [] then d0
              else is_primary (snd (last (mirror_snapshots xs))) \<and>
                   is_demoted (snd (last (mirror_snapshots xs))))"
  using assms
proof (induction xs arbitrary: s d0)
  case Nil
  then show ?case by simp
next
  case (Cons kv xs)
  obtain k v where kv: "kv = (k, v)" by (cases kv)
  show ?case
  proof (cases v)
    case Other_Namespace
    with Cons.prems kv have "for_each xs scan_remote_body (s, d0) = Fell_Through (e, d)"
      by (simp add: scan_remote_body_other)
    from Cons.IH [OF this] Cons.prems kv Other_Namespace show ?thesis by simp
  next
    case (Mirror m)
    from Cons.prems(2) kv Mirror have k: "k \<noteq> CEPH_NOSNAP"
      and rest: "list_all (\<lambda>x. fst x \<noteq> CEPH_NOSNAP) (mirror_snapshots xs)" by simp_all
    show ?thesis
    proof (cases "scan_remote_body k (Mirror m) (s, d0)")
      case (Continue a)
      obtain s1 d1 where a: "a = (s1, d1)" by (cases a)
      from Continue a have c: "scan_remote_body k (Mirror m) (s, d0) = Continue (s1, d1)"
        by simp
      from scan_remote_body_end [OF c] Cons.prems(3)
      have e1: "m_remote_snap_id_end s1 = CEPH_NOSNAP" by simp
      from scan_remote_body_no_break [OF _ k Cons.prems(3) e1] c
      have d1: "d1 = (is_primary m \<and> is_demoted m)" by blast
      from Cons.prems(1) kv Mirror c
      have "for_each xs scan_remote_body (s1, d1) = Fell_Through (e, d)" by simp
      from Cons.IH [OF this rest e1 Cons.prems(4)] d1 kv Mirror show ?thesis by simp
    next
      case (Break a)
      obtain s1 d1 where a: "a = (s1, d1)" by (cases a)
      with Break Cons.prems(1) kv Mirror have "s1 = e" by simp
      with Break a scan_remote_body_no_break [OF _ k Cons.prems(3), of m d0 s1 d1] Cons.prems(4)
      show ?thesis by simp
    next
      case (Return r)
      with Cons.prems(1) kv Mirror show ?thesis by simp
    next
      case (Abort f)
      with Cons.prems(1) kv Mirror show ?thesis by simp
    qed
  qed
qed


text \<open>When the loop has accepted an end snapshot, \<open>remote_demoted\<close> was computed at it.\<close>

lemma scan_remote_body_break:
  assumes "scan_remote_body k v (s, d0) = Break (s1, d1)"
  shows "d1 = (is_primary (m_remote_mirror_snap_ns s1) \<and>
               is_demoted (m_remote_mirror_snap_ns s1))"
proof (cases v)
  case Other_Namespace
  with assms show ?thesis by (simp add: scan_remote_body_other)
next
  case (Mirror m)
  show ?thesis
  proof (cases "skip_synced_snapshot k m s")
    case (Skip z)
    with assms Mirror show ?thesis
      by (auto simp: scan_remote_body_def Let_def split: if_split_asm)
  next
    case Past_Skip_Region
    with assms Mirror show ?thesis
      by (auto simp: scan_remote_body_def Let_def split: if_split_asm)
  next
    case (Skip_Abort f)
    with assms Mirror show ?thesis
      by (auto simp: scan_remote_body_def Let_def split: if_split_asm)
  qed
qed

lemma scan_remote_loop_demoted_end:
  assumes "for_each xs scan_remote_body (s, d0) = Fell_Through (e, d)"
    and "m_remote_snap_id_end s = CEPH_NOSNAP"
    and "m_remote_snap_id_end e \<noteq> CEPH_NOSNAP"
  shows "d = (is_primary (m_remote_mirror_snap_ns e) \<and> is_demoted (m_remote_mirror_snap_ns e))"
  using assms
proof (induction xs arbitrary: s d0)
  case Nil
  then show ?case by simp
next
  case (Cons kv xs)
  obtain k v where kv: "kv = (k, v)" by (cases kv)
  show ?case
  proof (cases "scan_remote_body k v (s, d0)")
    case (Continue a)
    obtain s1 d1 where a: "a = (s1, d1)" by (cases a)
    from Continue a have c: "scan_remote_body k v (s, d0) = Continue (s1, d1)" by simp
    from scan_remote_body_end [OF c] Cons.prems(2)
    have e1: "m_remote_snap_id_end s1 = CEPH_NOSNAP" by simp
    from Cons.prems(1) kv c
    have "for_each xs scan_remote_body (s1, d1) = Fell_Through (e, d)" by simp
    from Cons.IH [OF this e1 Cons.prems(3)] show ?thesis .
  next
    case (Break a)
    obtain s1 d1 where a: "a = (s1, d1)" by (cases a)
    with Break Cons.prems(1) kv have "s1 = e" "d1 = d" by simp_all
    with Break a scan_remote_body_break [of k v s d0 s1 d1] show ?thesis by simp
  next
    case (Return r)
    with Cons.prems(1) kv show ?thesis by simp
  next
    case (Abort f)
    with Cons.prems(1) kv show ?thesis by simp
  qed
qed

text \<open>Outside \<open>Replaying\<close> the watcher sets no flag during the scan.\<close>

lemma watcher_during_scan_not_replaying:
  "m_state s \<noteq> STATE_REPLAYING \<Longrightarrow>
     \<not> m_remote_image_updated (watcher_during_scan (s\<lparr>m_remote_image_updated := False\<rparr>))"
  by (simp add: watcher_during_scan_def Let_def split: list.split)

text \<open>Without a notification during the scan the flag stays cleared.\<close>

lemma watcher_during_scan_quiet:
  "update_during_scan s = [] \<or> update_during_scan s = False # rest \<Longrightarrow>
     \<not> m_remote_image_updated (watcher_during_scan (s\<lparr>m_remote_image_updated := False\<rparr>))"
  by (auto simp: watcher_during_scan_def Let_def)

lemma unlink_requests_handle_replay_complete [simp]:
  "unlink_requests (handle_replay_complete r d s) = unlink_requests s"
  by (simp add: unlink_requests_def handle_replay_complete_def notify_status_updated_def
        emit_def Let_def)

lemma local_plan_only_unlink:
  "local_plan_only s s' \<Longrightarrow> unlink_requests s' = unlink_requests s"
  unfolding local_plan_only_def unlink_requests_def by (erule ssubst) simp

lemma remote_plan_only_unlink:
  "remote_plan_only s s' \<Longrightarrow> unlink_requests s' = unlink_requests s"
  unfolding remote_plan_only_def unlink_requests_def by (erule ssubst) simp

text \<open>When the loop returns, one pass of its body returned, from a state the invariant holds in.\<close>

lemma for_each_returned:
  assumes "for_each xs body a = Returned r" and "P a"
    and "\<And>k v x y. P x \<Longrightarrow> body k v x = Continue y \<or> body k v x = Break y \<Longrightarrow> P y"
  shows "\<exists>k v x. P x \<and> body k v x = Return r"
  using assms(1,2)
proof (induction xs arbitrary: a)
  case Nil
  then show ?case by simp
next
  case (Cons kv xs)
  obtain k v where kv: "kv = (k, v)" by (cases kv)
  show ?case
  proof (cases "body k v a")
    case (Continue y)
    with Cons.prems kv have "for_each xs body y = Returned r" by simp
    moreover from Continue Cons.prems(2) assms(3) have "P y" by blast
    ultimately show ?thesis by (rule Cons.IH)
  next
    case (Break y)
    with Cons.prems kv show ?thesis by simp
  next
    case (Return s)
    with Cons.prems kv have "s = r" by simp
    with Return Cons.prems(2) show ?thesis by blast
  next
    case (Abort f)
    with Cons.prems kv show ?thesis by simp
  qed
qed

lemma scan_local_body_return:
  "scan_local_body k v x = Return r \<Longrightarrow> unlink_requests r = unlink_requests x"
  by (cases v) (auto simp: scan_local_body_def Let_def unlink_requests_def
      handle_replay_complete_def notify_status_updated_def emit_def split: if_split_asm)

lemma scan_remote_body_return:
  "scan_remote_body k v x = Return r \<Longrightarrow> unlink_requests r = unlink_requests (fst x)"
  by (cases v; cases x)
     (auto simp: scan_remote_body_def Let_def split: if_split_asm skip_verdict.splits)

lemma scan_local_loop_returned_unlink:
  assumes "for_each xs scan_local_body s = Returned r"
  shows "unlink_requests r = unlink_requests s"
proof -
  have "\<exists>k v x. local_plan_only s x \<and> scan_local_body k v x = Return r"
    using assms local_plan_only_refl scan_local_body_frame
    by (rule for_each_returned [where P = "local_plan_only s"])
  then obtain k v x where "local_plan_only s x" "scan_local_body k v x = Return r"
    by blast
  then show ?thesis by (simp add: scan_local_body_return local_plan_only_unlink)
qed

lemma scan_remote_loop_returned_unlink:
  assumes "for_each xs scan_remote_body (s, d) = Returned r"
  shows "unlink_requests r = unlink_requests s"
proof -
  have "\<exists>k v x. remote_plan_only s (fst x) \<and> scan_remote_body k v x = Return r"
    using assms _ scan_remote_body_frame
    by (rule for_each_returned [where P = "\<lambda>x. remote_plan_only s (fst x)"])
       (simp add: remote_plan_only_refl)
  then obtain k v x where "remote_plan_only s (fst x)" "scan_remote_body k v x = Return r"
    by blast
  then show ?thesis by (simp add: scan_remote_body_return remote_plan_only_unlink)
qed


lemma unlink_requests_emit [simp]:
  "unlink_requests (emit e s) =
     (if is_unlink e then unlink_requests s @ [e] else unlink_requests s)"
  by (simp add: unlink_requests_def emit_def)

lemma unlink_requests_reset_plan [simp]:
  "unlink_requests (reset_plan s) = unlink_requests s"
  by (simp add: unlink_requests_def reset_plan_def)

lemma unlink_requests_watcher_during_scan [simp]:
  "unlink_requests (watcher_during_scan s) = unlink_requests s"
  by (simp add: unlink_requests_def watcher_during_scan_def Let_def split: list.split)

lemma unlink_requests_is_replay_interrupted:
  "is_replay_interrupted s = (b, s') \<Longrightarrow> unlink_requests s' = unlink_requests s"
  by (auto simp: is_replay_interrupted_def unregister_update_watcher_def split: if_split_asm)

lemma unlink_requests_copy_snapshots:
  "copy_snapshots s = Inr s' \<Longrightarrow> unlink_requests s' = unlink_requests s"
  by (auto simp: copy_snapshots_def unlink_requests_def emit_def split: if_split_asm)

lemma unlink_requests_copy_image [simp]:
  "unlink_requests (copy_image s) = unlink_requests s"
  by (simp add: copy_image_def unlink_requests_def emit_def)

lemma unlink_requests_update [simp]:
  "unlink_requests (s\<lparr>m_remote_image_updated := b\<rparr>) = unlink_requests s"
  "unlink_requests (s\<lparr>m_remote_snap_id_start := i\<rparr>) = unlink_requests s"
  "unlink_requests (s\<lparr>m_state := st\<rparr>) = unlink_requests s"
  by (simp_all add: unlink_requests_def)

lemma planner_sends_no_unlink:
  "refresh_local_image s = Inr s' \<Longrightarrow> unlink_requests s' = unlink_requests s"
  "refresh_remote_image s = Inr s' \<Longrightarrow> unlink_requests s' = unlink_requests s"
  "scan_local_mirror_snapshots s = Inr s' \<Longrightarrow> unlink_requests s' = unlink_requests s"
  "scan_remote_mirror_snapshots s = Inr s' \<Longrightarrow> unlink_requests s' = unlink_requests s"
proof (induction s and s and s and s arbitrary: s' and s' and s' and s'
    rule: refresh_local_image_refresh_remote_image_scan_local_mirror_snapshots_scan_remote_mirror_snapshots.induct)
  case (1 s)
  then show ?case
    by (cases "local_refresh_required s") (auto simp: refresh_local_image.simps)
next
  case (2 s)
  then show ?case
    by (cases "remote_refresh_required s") (auto simp: refresh_remote_image.simps)
next
  case (3 s)
  show ?case
  proof (cases "m_state s = STATE_COMPLETE")
    case True
    with 3(4) show ?thesis
      by (auto simp: scan_local_mirror_snapshots.simps is_replay_interrupted_def
          unregister_update_watcher_def)
  next
    case False
    then have i: "(False, s) = is_replay_interrupted s"
      by (simp add: is_replay_interrupted_def)
    show ?thesis
    proof (cases "for_each (local_snap_info (reset_plan s)) scan_local_body (reset_plan s)")
      case (Fell_Through l)
      from scan_local_loop_frame [OF Fell_Through]
      have l: "unlink_requests l = unlink_requests s"
        by (simp add: local_plan_only_unlink)
      note ih = 3(1) [OF i refl refl Fell_Through] 3(2) [OF i refl refl Fell_Through]
        3(3) [OF i refl refl Fell_Through]
      from 3(4) False Fell_Through
      have "scan_local_mirror_snapshots s =
        (if m_local_snap_id_start l > 0 \<or> m_local_snap_id_end l \<noteq> CEPH_NOSNAP then
           if is_non_primary (m_local_mirror_snap_ns l) \<and>
              primary_mirror_uuid (m_local_mirror_snap_ns l) \<noteq> remote_mirror_uuid l
           then Inr (handle_replay_complete (- EEXIST)
                       ''local image linked to unknown peer'' l)
           else if state (m_local_mirror_snap_ns l) = MIRROR_SNAPSHOT_STATE_PRIMARY
           then Inr (handle_replay_complete 0 ''force promoted'' l)
           else if complete (m_local_mirror_snap_ns l)
           then scan_remote_mirror_snapshots
                  (l\<lparr>m_remote_snap_id_start := primary_snap_id (m_local_mirror_snap_ns l)\<rparr>)
           else scan_remote_mirror_snapshots l
         else scan_remote_mirror_snapshots l)"
        by (simp add: scan_local_mirror_snapshots.simps is_replay_interrupted_def)
      with 3(4) ih l show ?thesis
        by (auto split: if_split_asm)
    next
      case (Returned r)
      with 3(4) False scan_local_loop_returned_unlink [OF Returned] show ?thesis
        by (simp add: scan_local_mirror_snapshots.simps is_replay_interrupted_def)
    next
      case (Aborted f)
      with 3(4) False show ?thesis
        by (simp add: scan_local_mirror_snapshots.simps is_replay_interrupted_def)
    qed
  qed
next
  case (4 s)
  let ?w = "watcher_during_scan (s\<lparr>m_remote_image_updated := False\<rparr>)"
  show ?case
  proof (cases "for_each (remote_snap_info ?w) scan_remote_body (?w, False)")
    case (Fell_Through a)
    obtain e d where a: "a = (e, d)" by (cases a)
    from scan_remote_loop_frame [OF Fell_Through [unfolded a]]
    have e: "unlink_requests e = unlink_requests s"
      by (simp add: remote_plan_only_unlink)
    note ih = 4(1) [OF refl Fell_Through a [symmetric]]
    from 4(2) Fell_Through a
    have "scan_remote_mirror_snapshots s =
       (if m_remote_snap_id_end e \<noteq> CEPH_NOSNAP \<and> complete (m_remote_mirror_snap_ns e)
        then
          if m_local_snap_id_end e \<noteq> CEPH_NOSNAP \<and> \<not> complete (m_local_mirror_snap_ns e)
          then Inr (copy_image e)
          else copy_snapshots e
        else if m_remote_image_updated e
        then refresh_local_image (e\<lparr>m_remote_image_updated := False\<rparr>)
        else
          (case is_replay_interrupted e of
             (True, s3) \<Rightarrow> Inr s3
           | (False, s3) \<Rightarrow>
               if d then Inr (handle_replay_complete 0 ''remote image demoted'' s3)
               else if \<not> (m_state s3 = STATE_REPLAYING)
               then Inl (Assert_Failed ''m_state == STATE_REPLAYING'')
               else Inr (notify_status_updated (s3\<lparr>m_state := STATE_IDLE\<rparr>))))"
      by (simp add: scan_remote_mirror_snapshots.simps Let_def)
    with 4(2) ih e show ?thesis
      by (auto simp: notify_status_updated_def split: if_split_asm prod.splits bool.splits
          dest: unlink_requests_copy_snapshots unlink_requests_is_replay_interrupted)
  next
    case (Returned r)
    with 4(2) scan_remote_loop_returned_unlink [OF Returned] show ?thesis
      by (simp add: scan_remote_mirror_snapshots.simps Let_def)
  next
    case (Aborted f)
    with 4(2) show ?thesis
      by (simp add: scan_remote_mirror_snapshots.simps Let_def)
  qed
qed


subsection \<open>The error latch\<close>

text \<open>
  C1, as stated, fails: the latch is open while \<open>m_error_code\<close> is 0, so a first call
  that supplies code 0 (a successful end such as "force promoted") does not close it, and
  a second call with an error replaces both the code and the description.
\<close>

theorem handle_replay_complete_first_zero_overwritten:
  "m_error_code
     (handle_replay_complete (- 22) ''failed to refresh local image''
        (handle_replay_complete 0 ''force promoted''
           ((new_Replayer ''local'' ''remote'' [] [])\<lparr>m_state := STATE_REPLAYING\<rparr>))) = - 22 \<and>
   m_error_description
     (handle_replay_complete (- 22) ''failed to refresh local image''
        (handle_replay_complete 0 ''force promoted''
           ((new_Replayer ''local'' ''remote'' [] [])\<lparr>m_state := STATE_REPLAYING\<rparr>)))
     = ''failed to refresh local image''"
  by (simp add: handle_replay_complete_def notify_status_updated_def emit_def Let_def
        new_Replayer_def)

text \<open>
  C1, amended: for every pair of calls \<open>handle_replay_complete(a, da)\<close> then
  \<open>handle_replay_complete(b, db)\<close>, the state moves from \<open>Replaying\<close> or \<open>Idle\<close> to
  \<open>Complete\<close> on the first call (queueing one notification) and the second call changes
  neither the state nor the trace; and when no error is latched before the first call and
  the first call's code \<open>a\<close> is not 0, the latched code and description are the first
  call's, and the second call changes nothing at all. A first call with code 0 made with
  no error latched does not close the latch: the second call's code and description are
  then the latched ones.
\<close>

theorem handle_replay_complete_latch:
  "m_state (handle_replay_complete a da s) =
     (if m_state s = STATE_REPLAYING \<or> m_state s = STATE_IDLE then STATE_COMPLETE
      else m_state s) \<and>
   trace (handle_replay_complete a da s) =
     (if m_state s = STATE_REPLAYING \<or> m_state s = STATE_IDLE
      then trace s @ [Queue_Notification] else trace s) \<and>
   m_state (handle_replay_complete b db (handle_replay_complete a da s)) =
     m_state (handle_replay_complete a da s) \<and>
   trace (handle_replay_complete b db (handle_replay_complete a da s)) =
     trace (handle_replay_complete a da s) \<and>
   (m_error_code s = 0 \<and> a \<noteq> 0 \<longrightarrow>
      m_error_code (handle_replay_complete a da s) = a \<and>
      m_error_description (handle_replay_complete a da s) = da \<and>
      handle_replay_complete b db (handle_replay_complete a da s) =
        handle_replay_complete a da s) \<and>
   (m_error_code s = 0 \<longrightarrow>
      m_error_code (handle_replay_complete b db (handle_replay_complete 0 da s)) = b \<and>
      m_error_description (handle_replay_complete b db (handle_replay_complete 0 da s)) = db)"
  by (simp add: handle_replay_complete_def notify_status_updated_def emit_def Let_def)

theorem handle_replay_complete_latch_witness:
  "m_state (handle_replay_complete (- 5) ''failed to copy remote image''
      (handle_replay_complete (- 22) ''invalid remote mirror snapshot state''
         ((new_Replayer ''local'' ''remote'' [] [])\<lparr>m_state := STATE_REPLAYING\<rparr>)))
     = STATE_COMPLETE \<and>
   trace (handle_replay_complete (- 5) ''failed to copy remote image''
      (handle_replay_complete (- 22) ''invalid remote mirror snapshot state''
         ((new_Replayer ''local'' ''remote'' [] [])\<lparr>m_state := STATE_REPLAYING\<rparr>)))
     = [Queue_Notification] \<and>
   m_error_code (handle_replay_complete (- 5) ''failed to copy remote image''
      (handle_replay_complete (- 22) ''invalid remote mirror snapshot state''
         ((new_Replayer ''local'' ''remote'' [] [])\<lparr>m_state := STATE_REPLAYING\<rparr>)))
     = - 22 \<and>
   m_error_description (handle_replay_complete (- 5) ''failed to copy remote image''
      (handle_replay_complete (- 22) ''invalid remote mirror snapshot state''
         ((new_Replayer ''local'' ''remote'' [] [])\<lparr>m_state := STATE_REPLAYING\<rparr>)))
     = ''invalid remote mirror snapshot state''"
  using handle_replay_complete_latch
    [of "- 22" "''invalid remote mirror snapshot state''"
        "(new_Replayer ''local'' ''remote'' [] [])\<lparr>m_state := STATE_REPLAYING\<rparr>"
        "- 5" "''failed to copy remote image''"]
  by (simp add: new_Replayer_def)

subsection \<open>Shut-down\<close>

text \<open>
  The teardown from a checkpoint or from \<open>shut_down\<close>: unregister the watcher, wait for
  the in-flight operations, complete the pending callback once with the latched code.
\<close>

lemma teardown_trace:
  assumes "m_state t = STATE_COMPLETE" and "m_on_init_shutdown t = Some c"
  shows "\<exists>t3. handle_wait_for_in_flight_ops rw
                 (handle_unregister_update_watcher ru (unregister_update_watcher t)) = Inr t3 \<and>
           trace t3 = trace t @ [Unregister_Update_Watcher, Wait_For_Ops,
             Complete_Context c (if m_error_code t = 0 \<and> ru < 0 then ru else m_error_code t)] \<and>
           m_on_init_shutdown t3 = None \<and> m_state t3 = STATE_COMPLETE"
  using assms
  by (simp add: handle_wait_for_in_flight_ops_def handle_unregister_update_watcher_def
        unregister_update_watcher_def wait_for_in_flight_ops_def handle_replay_complete_def
        emit_def Let_def)

text \<open>
  A stage that fails while a shut-down is deferred only reaches
  \<open>handle_replay_complete\<close>, which is no checkpoint: the error is latched, nothing is
  sent, and the shut-down callback stays pending.
\<close>

lemma deferred_shut_down_not_resumed_by_failure:
  assumes "m_state s = STATE_REPLAYING" and "m_on_init_shutdown s = None"
    and "shut_down on_finish s = Inr s1" and "r < 0"
  shows "trace (handle_copy_image r s1) = trace s \<and>
         m_on_init_shutdown (handle_copy_image r s1) = Some on_finish \<and>
         m_error_code (handle_copy_image r s1) = r"
  using assms
  by (auto simp: shut_down_def handle_copy_image_def handle_replay_complete_def Let_def)

text \<open>
  C2, as stated, fails: \<open>shut_down\<close> clears the latch, so the code it hands to
  \<open>on_finish\<close> is not the one latched by earlier \<open>handle_replay_complete\<close> calls. Here
  an idle replayer latches \<open>-EINVAL\<close>, is shut down, and \<open>on_finish\<close> gets 0.
\<close>

theorem shut_down_clears_latched_error:
  "m_error_code
     (handle_replay_complete (- 22) ''invalid remote mirror snapshot state''
        ((new_Replayer ''local'' ''remote'' [] [])\<lparr>m_state := STATE_IDLE\<rparr>)) = - 22 \<and>
   map_sum id trace
     (then_call
        (shut_down 7
           (handle_replay_complete (- 22) ''invalid remote mirror snapshot state''
              ((new_Replayer ''local'' ''remote'' [] [])\<lparr>m_state := STATE_IDLE\<rparr>)))
        (handle_wait_for_in_flight_ops 0 \<circ> handle_unregister_update_watcher 0))
     = Inr [Queue_Notification, Unregister_Update_Watcher, Wait_For_Ops, Complete_Context 7 0]"
  by (simp add: then_call_def shut_down_def handle_wait_for_in_flight_ops_def
        handle_unregister_update_watcher_def unregister_update_watcher_def
        wait_for_in_flight_ops_def handle_replay_complete_def notify_status_updated_def
        emit_def Let_def new_Replayer_def)

text \<open>
  C2, amended: for every call \<open>shut_down(on_finish)\<close> from a non-\<open>Init\<close> state with no
  init or shut-down callback pending, the state becomes \<open>Complete\<close> and the latch is
  cleared (code 0, empty description). If the previous state was \<open>Replaying\<close>, nothing is sent yet, and any later
  checkpoint that finds \<open>Complete\<close> starts the teardown; otherwise the teardown starts at
  once. The teardown unregisters the watcher, then waits for the in-flight operations,
  then completes \<open>on_finish\<close> exactly once, with the code latched since the shut-down
  (in the immediate case: the watcher's unregistration error, else 0).
\<close>

theorem shut_down_teardown:
  assumes "m_state s \<noteq> STATE_INIT" and "m_on_init_shutdown s = None"
  shows "\<exists>s1. shut_down on_finish s = Inr s1 \<and> m_state s1 = STATE_COMPLETE \<and>
           m_error_code s1 = 0 \<and> m_error_description s1 = [] \<and>
           m_on_init_shutdown s1 = Some on_finish \<and>
           (m_state s = STATE_REPLAYING \<longrightarrow>
              trace s1 = trace s \<and>
              (\<forall>t. m_state t = STATE_COMPLETE \<and> m_on_init_shutdown t = Some on_finish \<longrightarrow>
                 (\<exists>t1 t3. is_replay_interrupted t = (True, t1) \<and>
                    handle_wait_for_in_flight_ops rw (handle_unregister_update_watcher ru t1)
                      = Inr t3 \<and>
                    trace t3 = trace t @ [Unregister_Update_Watcher, Wait_For_Ops,
                      Complete_Context on_finish
                        (if m_error_code t = 0 \<and> ru < 0 then ru else m_error_code t)] \<and>
                    m_on_init_shutdown t3 = None))) \<and>
           (m_state s \<noteq> STATE_REPLAYING \<longrightarrow>
              (\<exists>s3. handle_wait_for_in_flight_ops rw (handle_unregister_update_watcher ru s1)
                      = Inr s3 \<and>
                 trace s3 = trace s @ [Unregister_Update_Watcher, Wait_For_Ops,
                   Complete_Context on_finish (if ru < 0 then ru else 0)] \<and>
                 m_on_init_shutdown s3 = None))"
proof (cases "m_state s = STATE_REPLAYING")
  case True
  have deferred: "\<forall>t. m_state t = STATE_COMPLETE \<and> m_on_init_shutdown t = Some on_finish \<longrightarrow>
     (\<exists>t1 t3. is_replay_interrupted t = (True, t1) \<and>
        handle_wait_for_in_flight_ops rw (handle_unregister_update_watcher ru t1) = Inr t3 \<and>
        trace t3 = trace t @ [Unregister_Update_Watcher, Wait_For_Ops,
          Complete_Context on_finish
            (if m_error_code t = 0 \<and> ru < 0 then ru else m_error_code t)] \<and>
        m_on_init_shutdown t3 = None)"
  proof (intro allI impI)
    fix t :: replayer assume t: "m_state t = STATE_COMPLETE \<and> m_on_init_shutdown t = Some on_finish"
    then have "is_replay_interrupted t = (True, unregister_update_watcher t)"
      by (simp add: is_replay_interrupted_def)
    with teardown_trace [of t on_finish rw ru] t
    show "\<exists>t1 t3. is_replay_interrupted t = (True, t1) \<and>
        handle_wait_for_in_flight_ops rw (handle_unregister_update_watcher ru t1) = Inr t3 \<and>
        trace t3 = trace t @ [Unregister_Update_Watcher, Wait_For_Ops,
          Complete_Context on_finish
            (if m_error_code t = 0 \<and> ru < 0 then ru else m_error_code t)] \<and>
        m_on_init_shutdown t3 = None"
      by auto
  qed
  from True assms have "shut_down on_finish s =
      Inr (s\<lparr>m_on_init_shutdown := Some on_finish, m_error_code := 0,
              m_error_description := [], m_state := STATE_COMPLETE\<rparr>)"
    by (simp add: shut_down_def Let_def)
  with True deferred show ?thesis by simp
next
  case False
  let ?t = "s\<lparr>m_on_init_shutdown := Some on_finish, m_error_code := 0,
              m_error_description := [], m_state := STATE_COMPLETE\<rparr>"
  from False assms have sd: "shut_down on_finish s = Inr (unregister_update_watcher ?t)"
    by (simp add: shut_down_def Let_def)
  have "m_state ?t = STATE_COMPLETE" and "m_on_init_shutdown ?t = Some on_finish" by simp_all
  from teardown_trace [OF this, of rw ru] obtain s3 where
    "handle_wait_for_in_flight_ops rw
       (handle_unregister_update_watcher ru (unregister_update_watcher ?t)) = Inr s3"
    "trace s3 = trace s @ [Unregister_Update_Watcher, Wait_For_Ops,
       Complete_Context on_finish (if ru < 0 then ru else 0)]"
    "m_on_init_shutdown s3 = None"
    by auto
  with sd False show ?thesis
    by (simp add: unregister_update_watcher_def emit_def)
qed

theorem shut_down_teardown_witness:
  "map_sum id trace
     (then_call
        (shut_down 7 ((new_Replayer ''local'' ''remote'' [] [])\<lparr>m_state := STATE_IDLE\<rparr>))
        (handle_wait_for_in_flight_ops 0 \<circ> handle_unregister_update_watcher (- 5)))
     = Inr [Unregister_Update_Watcher, Wait_For_Ops, Complete_Context 7 (- 5)] \<and>
   map_sum id (\<lambda>s. (m_state s, m_error_code s, m_error_description s, trace s))
     (shut_down 7
        ((new_Replayer ''local'' ''remote'' [] [])
           \<lparr>m_state := STATE_REPLAYING, m_error_code := - 22,
            m_error_description := ''stale''\<rparr>))
     = Inr (STATE_COMPLETE, 0, [], [])"
proof -
  let ?s = "(new_Replayer ''local'' ''remote'' [] [])\<lparr>m_state := STATE_IDLE\<rparr>"
  let ?u = "(new_Replayer ''local'' ''remote'' [] [])
           \<lparr>m_state := STATE_REPLAYING, m_error_code := - 22,
            m_error_description := ''stale''\<rparr>"
  have h1: "m_state ?s \<noteq> STATE_INIT" by simp
  have h2: "m_on_init_shutdown ?s = None" by (simp add: new_Replayer_def)
  have u1: "m_state ?u \<noteq> STATE_INIT" by simp
  have u2: "m_on_init_shutdown ?u = None" by (simp add: new_Replayer_def)
  from shut_down_teardown [OF h1 h2, of 7 0 "- 5"] obtain s1 s3 where
    "shut_down 7 ?s = Inr s1"
    "handle_wait_for_in_flight_ops 0 (handle_unregister_update_watcher (- 5) s1) = Inr s3"
    "trace s3 = trace ?s @ [Unregister_Update_Watcher, Wait_For_Ops, Complete_Context 7 (- 5)]"
    by auto
  then have a: "map_sum id trace
     (then_call (shut_down 7 ?s)
        (handle_wait_for_in_flight_ops 0 \<circ> handle_unregister_update_watcher (- 5)))
     = Inr [Unregister_Update_Watcher, Wait_For_Ops, Complete_Context 7 (- 5)]"
    by (simp add: then_call_def new_Replayer_def)
  from shut_down_teardown [OF u1 u2, of 7 0 0] obtain u1 where
    "shut_down 7 ?u = Inr u1" "m_state u1 = STATE_COMPLETE" "m_error_code u1 = 0"
    "m_error_description u1 = []" "trace u1 = trace ?u"
    by auto
  then have b: "map_sum id (\<lambda>s. (m_state s, m_error_code s, m_error_description s, trace s))
     (shut_down 7 ?u) = Inr (STATE_COMPLETE, 0, [], [])"
    by (simp add: new_Replayer_def)
  from a b show ?thesis by simp
qed

subsection \<open>Initialisation\<close>

text \<open>
  C6: \<open>init\<close> with an unresolved peer uuid goes to \<open>Complete\<close> and registers no
  watcher, but when the lookup succeeds (\<open>r = 0\<close>) with an empty uuid, the code it queues
  for \<open>on_finish\<close> is \<open>r\<close>, that is 0, not an error.
\<close>

theorem init_empty_peer_uuid_reports_zero:
  "map_sum id (\<lambda>s. (m_state s, trace s))
     (init 1 0 [] (new_Replayer ''local'' ''remote'' [] []))
     = Inr (STATE_COMPLETE, [Queue_Context 1 0])"
  by (simp add: init_def emit_def new_Replayer_def)

subsection \<open>The full sequence\<close>

text \<open>
  C10: the full sequence resets the cached local namespace before it sends the
  snapshot copy; so, whatever cursor and \<open>snap_seqs\<close> the last scan left there, the image
  copy that follows the three successful stages has no resume object and carries exactly
  the \<open>snap_seqs\<close> that the snapshot copy stored.
\<close>

theorem full_sequence_copy_image_fresh:
  assumes "copy_snapshots s = Inr s1" and "\<not> r1 < 0" and "\<not> r2 < 0" and "\<not> r3 < 0"
  shows "m_local_mirror_snap_ns s1 = default_MirrorSnapshotNamespace \<and>
         trace s1 = trace s @ [SnapshotCopyRequest (m_remote_snap_id_start s)
                                 (m_remote_snap_id_end s) (m_local_snap_id_start s) False] \<and>
         trace (finish_CreateNonPrimaryRequest r3 local_snap_id
                  (finish_GetImageStateRequest r2 image_state
                     (finish_SnapshotCopyRequest r1 seqs s1))) =
           trace s @
             [SnapshotCopyRequest (m_remote_snap_id_start s) (m_remote_snap_id_end s)
                (m_local_snap_id_start s) False,
              GetImageStateRequest (m_remote_snap_id_end s),
              CreateNonPrimaryRequest (is_demoted (m_remote_mirror_snap_ns s))
                (remote_mirror_uuid s) (m_remote_snap_id_end s) seqs image_state,
              ImageCopyRequest (m_remote_snap_id_start s) (m_remote_snap_id_end s)
                (m_local_snap_id_start s) False None seqs]"
proof -
  from assms(1) have s1: "s1 = emit (SnapshotCopyRequest (m_remote_snap_id_start s)
      (m_remote_snap_id_end s) (m_local_snap_id_start s) False)
      (s\<lparr>m_local_mirror_snap_ns := default_MirrorSnapshotNamespace\<rparr>)"
    by (simp add: copy_snapshots_def split: if_split_asm)
  show ?thesis
    using assms(2-4)
    by (simp add: s1 finish_CreateNonPrimaryRequest_def finish_GetImageStateRequest_def
          finish_SnapshotCopyRequest_def handle_create_non_primary_snapshot_def
          handle_get_image_state_def handle_copy_snapshots_def copy_image_def
          create_non_primary_snapshot_def get_image_state_def emit_def
          default_MirrorSnapshotNamespace_def)
qed

theorem full_sequence_copy_image_fresh_witness:
  "map_sum id trace
     (then_call
        (copy_snapshots
           ((new_Replayer ''local'' ''remote'' [] [])
              \<lparr>m_state := STATE_REPLAYING, m_remote_snap_id_start := 10,
               m_remote_snap_id_end := 20, m_local_snap_id_start := 100,
               m_local_mirror_snap_ns := default_MirrorSnapshotNamespace
                 \<lparr>complete := True, last_copied_object_number := 42,
                  snap_seqs := [(10, 100)]\<rparr>\<rparr>))
        (Inr \<circ> finish_CreateNonPrimaryRequest 0 110 \<circ> finish_GetImageStateRequest 0 7 \<circ>
           finish_SnapshotCopyRequest 0 [(20, 110)]))
     = Inr [SnapshotCopyRequest 10 20 100 False, GetImageStateRequest 20,
            CreateNonPrimaryRequest False ''remote'' 20 [(20, 110)] 7,
            ImageCopyRequest 10 20 100 False None [(20, 110)]]"
proof -
  let ?s = "(new_Replayer ''local'' ''remote'' [] [])
              \<lparr>m_state := STATE_REPLAYING, m_remote_snap_id_start := 10,
               m_remote_snap_id_end := 20, m_local_snap_id_start := 100,
               m_local_mirror_snap_ns := default_MirrorSnapshotNamespace
                 \<lparr>complete := True, last_copied_object_number := 42,
                  snap_seqs := [(10, 100)]\<rparr>\<rparr>"
  obtain s1 where h: "copy_snapshots ?s = Inr s1"
    by (simp add: copy_snapshots_def CEPH_NOSNAP_def)
  have r: "\<not> (0::int) < 0" by simp
  from full_sequence_copy_image_fresh [OF h r r r, of 110 7 "[(20, 110)]"]
  have "trace (finish_CreateNonPrimaryRequest 0 110 (finish_GetImageStateRequest 0 7
          (finish_SnapshotCopyRequest 0 [(20, 110)] s1))) =
        [SnapshotCopyRequest 10 20 100 False, GetImageStateRequest 20,
         CreateNonPrimaryRequest False ''remote'' 20 [(20, 110)] 7,
         ImageCopyRequest 10 20 100 False None [(20, 110)]]"
    by (simp add: new_Replayer_def is_demoted_def default_MirrorSnapshotNamespace_def)
  then show ?thesis
    by (simp add: h then_call_def)
qed

subsection \<open>Unlinking the peer\<close>

lemma successful_sync_result:
  assumes "successful_sync seqs image_state local_snap_id s = Inr s1"
  shows "m_state s1 = m_state s \<and> m_remote_snap_id_start s1 = m_remote_snap_id_start s \<and>
         m_remote_mirror_peer_uuid s1 = m_remote_mirror_peer_uuid s \<and>
         unlink_requests s1 = unlink_requests s \<and>
         trace s1 = trace s @
           [SnapshotCopyRequest (m_remote_snap_id_start s) (m_remote_snap_id_end s)
              (m_local_snap_id_start s) False,
            GetImageStateRequest (m_remote_snap_id_end s),
            CreateNonPrimaryRequest (is_demoted (m_remote_mirror_snap_ns s))
              (remote_mirror_uuid s) (m_remote_snap_id_end s) seqs image_state,
            ImageCopyRequest (m_remote_snap_id_start s) (m_remote_snap_id_end s)
              (m_local_snap_id_start s) False None seqs,
            Set_Copy_Progress local_snap_id True 0, Notify_Update]"
proof -
  from assms obtain s0 where c: "copy_snapshots s = Inr s0"
    by (cases "copy_snapshots s") (simp_all add: successful_sync_def then_call_def)
  then have s0: "s0 = emit (SnapshotCopyRequest (m_remote_snap_id_start s)
      (m_remote_snap_id_end s) (m_local_snap_id_start s) False)
      (s\<lparr>m_local_mirror_snap_ns := default_MirrorSnapshotNamespace\<rparr>)"
    by (simp add: copy_snapshots_def split: if_split_asm)
  from assms c have "s1 = handle_update_non_primary_snapshot True 0 (handle_copy_image 0
      (finish_CreateNonPrimaryRequest 0 local_snap_id
        (finish_GetImageStateRequest 0 image_state (finish_SnapshotCopyRequest 0 seqs s0))))"
    by (simp add: successful_sync_def then_call_def)
  then show ?thesis
    by (simp add: s0 finish_CreateNonPrimaryRequest_def finish_GetImageStateRequest_def
          finish_SnapshotCopyRequest_def handle_create_non_primary_snapshot_def
          handle_get_image_state_def handle_copy_snapshots_def copy_image_def
          create_non_primary_snapshot_def get_image_state_def emit_def
          handle_update_non_primary_snapshot_def handle_copy_image_def
          update_non_primary_snapshot_def notify_image_update_def Let_def
          unlink_requests_def default_MirrorSnapshotNamespace_def)
qed

text \<open>
  C5, as stated, fails: the notify stage ends in a checkpoint, so a full sync that
  succeeds while a shut-down is pending sends no \<open>UnlinkPeer\<close> although
  \<open>remote_snap_id_start\<close> is 10.
\<close>

theorem interrupted_sync_sends_no_unlink:
  "map_sum id (\<lambda>s. (m_remote_snap_id_start s, unlink_requests s, trace s))
     (then_call
        (then_call
           (successful_sync [(20, 110)] 7 110
              ((new_Replayer ''local'' ''remote'' [] [])
                 \<lparr>m_state := STATE_REPLAYING, m_remote_mirror_peer_uuid := ''peer'',
                  m_local_snap_id_start := 100, m_remote_snap_id_start := 10,
                  m_remote_snap_id_end := 20\<rparr>))
           (shut_down 9))
        (handle_notify_image_update 0))
     = Inr (10, [],
            [SnapshotCopyRequest 10 20 100 False, GetImageStateRequest 20,
             CreateNonPrimaryRequest False ''remote'' 20 [(20, 110)] 7,
             ImageCopyRequest 10 20 100 False None [(20, 110)],
             Set_Copy_Progress 110 True 0, Notify_Update, Unregister_Update_Watcher])"
  by (simp add: successful_sync_def then_call_def copy_snapshots_def CEPH_NOSNAP_def
        finish_CreateNonPrimaryRequest_def finish_GetImageStateRequest_def
        finish_SnapshotCopyRequest_def handle_create_non_primary_snapshot_def
        handle_get_image_state_def handle_copy_snapshots_def copy_image_def
        create_non_primary_snapshot_def get_image_state_def emit_def
        handle_update_non_primary_snapshot_def handle_copy_image_def
        update_non_primary_snapshot_def notify_image_update_def Let_def
        shut_down_def handle_notify_image_update_def is_replay_interrupted_def
        unregister_update_watcher_def unlink_requests_def is_demoted_def
        default_MirrorSnapshotNamespace_def new_Replayer_def)

text \<open>
  C5, amended: for every successful full sync that reaches the end of its notify stage
  with no shut-down pending, no \<open>UnlinkPeer\<close> request is sent before that point, and the
  stage then sends exactly one, \<open>UnlinkPeer(remote_snap_id_start, peer_uuid)\<close>, if
  \<open>remote_snap_id_start > 0\<close> and none otherwise (it re-enters the planner, which sends
  none). A \<open>NotFound\<close> result of the request is treated as success: the replay re-enters
  the planner at the local refresh and sends no further \<open>UnlinkPeer\<close>. Any other error
  is handed to \<open>handle_replay_complete\<close>, which ends a running replay with that code.
  When a shut-down is pending (the state is \<open>Complete\<close>) as the notify stage completes,
  with whatever result, the stage only starts the teardown: it unregisters the watcher
  and sends no \<open>UnlinkPeer\<close>.
\<close>

theorem unlink_peer_after_sync:
  assumes "successful_sync seqs image_state local_snap_id s = Inr s1"
    and "m_state s \<noteq> STATE_COMPLETE"
  shows "unlink_requests s1 = unlink_requests s \<and>
         (m_remote_snap_id_start s > 0 \<longrightarrow>
            handle_notify_image_update r s1 =
              Inr (emit (UnlinkPeerRequest (m_remote_snap_id_start s)
                           (m_remote_mirror_peer_uuid s)) s1)) \<and>
         (\<forall>s2. handle_notify_image_update r s1 = Inr s2 \<longrightarrow>
            unlink_requests s2 = unlink_requests s @
              (if m_remote_snap_id_start s > 0
               then [UnlinkPeerRequest (m_remote_snap_id_start s) (m_remote_mirror_peer_uuid s)]
               else [])) \<and>
         handle_unlink_peer (- ENOENT) t = refresh_local_image (notify_status_updated t) \<and>
         handle_unlink_peer (- ENOENT) t = handle_unlink_peer 0 t \<and>
         (\<forall>t'. handle_unlink_peer (- ENOENT) t = Inr t' \<longrightarrow>
            unlink_requests t' = unlink_requests t) \<and>
         (r' < 0 \<and> r' \<noteq> - ENOENT \<longrightarrow>
            handle_unlink_peer r' t =
              Inr (handle_replay_complete r'
                     ''failed to unlink local peer from remote image'' t) \<and>
            (m_state t = STATE_REPLAYING \<and> m_error_code t = 0 \<longrightarrow>
               m_state (handle_replay_complete r'
                     ''failed to unlink local peer from remote image'' t) = STATE_COMPLETE \<and>
               m_error_code (handle_replay_complete r'
                     ''failed to unlink local peer from remote image'' t) = r')) \<and>
         (m_state u = STATE_COMPLETE \<longrightarrow>
            handle_notify_image_update r u = Inr (unregister_update_watcher u) \<and>
            trace (unregister_update_watcher u) = trace u @ [Unregister_Update_Watcher] \<and>
            unlink_requests (unregister_update_watcher u) = unlink_requests u)"
proof -
  note s1 = successful_sync_result [OF assms(1)]
  from s1 assms(2) have i: "is_replay_interrupted s1 = (False, s1)"
    by (simp add: is_replay_interrupted_def)
  have a: "unlink_requests s1 = unlink_requests s" using s1 by simp
  have b: "m_remote_snap_id_start s > 0 \<longrightarrow>
            handle_notify_image_update r s1 =
              Inr (emit (UnlinkPeerRequest (m_remote_snap_id_start s)
                           (m_remote_mirror_peer_uuid s)) s1)"
    using s1 i by (auto simp: handle_notify_image_update_def unlink_peer_def)
  have c: "\<forall>s2. handle_notify_image_update r s1 = Inr s2 \<longrightarrow>
            unlink_requests s2 = unlink_requests s @
              (if m_remote_snap_id_start s > 0
               then [UnlinkPeerRequest (m_remote_snap_id_start s) (m_remote_mirror_peer_uuid s)]
               else [])"
  proof (intro allI impI)
    fix s2 assume h: "handle_notify_image_update r s1 = Inr s2"
    show "unlink_requests s2 = unlink_requests s @
              (if m_remote_snap_id_start s > 0
               then [UnlinkPeerRequest (m_remote_snap_id_start s) (m_remote_mirror_peer_uuid s)]
               else [])"
    proof (cases "m_remote_snap_id_start s = 0")
      case True
      with h i s1 have "refresh_local_image (notify_status_updated s1) = Inr s2"
        by (simp add: handle_notify_image_update_def unlink_peer_def)
      from planner_sends_no_unlink(1) [OF this] True a show ?thesis
        by (simp add: notify_status_updated_def)
    next
      case False
      then have "m_remote_snap_id_start s > 0" by (simp add: word_gt_0)
      with h b a show ?thesis by auto
    qed
  qed
  have d: "handle_unlink_peer (- ENOENT) t = refresh_local_image (notify_status_updated t)"
    and d': "handle_unlink_peer (- ENOENT) t = handle_unlink_peer 0 t"
    by (simp_all add: handle_unlink_peer_def ENOENT_def)
  have e: "\<forall>t'. handle_unlink_peer (- ENOENT) t = Inr t' \<longrightarrow>
            unlink_requests t' = unlink_requests t"
    using planner_sends_no_unlink(1) [of "notify_status_updated t"]
    by (simp add: d notify_status_updated_def)
  have f: "r' < 0 \<and> r' \<noteq> - ENOENT \<longrightarrow>
            handle_unlink_peer r' t =
              Inr (handle_replay_complete r'
                     ''failed to unlink local peer from remote image'' t) \<and>
            (m_state t = STATE_REPLAYING \<and> m_error_code t = 0 \<longrightarrow>
               m_state (handle_replay_complete r'
                     ''failed to unlink local peer from remote image'' t) = STATE_COMPLETE \<and>
               m_error_code (handle_replay_complete r'
                     ''failed to unlink local peer from remote image'' t) = r')"
    by (simp add: handle_unlink_peer_def handle_replay_complete_def Let_def
          notify_status_updated_def emit_def)
  have g: "m_state u = STATE_COMPLETE \<longrightarrow>
            handle_notify_image_update r u = Inr (unregister_update_watcher u) \<and>
            trace (unregister_update_watcher u) = trace u @ [Unregister_Update_Watcher] \<and>
            unlink_requests (unregister_update_watcher u) = unlink_requests u"
    by (simp add: handle_notify_image_update_def is_replay_interrupted_def
          unregister_update_watcher_def emit_def unlink_requests_def)
  from a b c d d' e f g show ?thesis by blast
qed

theorem unlink_peer_after_sync_witness:
  "map_sum id trace
     (then_call
        (successful_sync [(20, 110)] 7 110
           ((new_Replayer ''local'' ''remote'' [] [])
              \<lparr>m_state := STATE_REPLAYING, m_remote_mirror_peer_uuid := ''peer'',
               m_local_snap_id_start := 100, m_remote_snap_id_start := 10,
               m_remote_snap_id_end := 20\<rparr>))
        (handle_notify_image_update 0))
     = Inr [SnapshotCopyRequest 10 20 100 False, GetImageStateRequest 20,
            CreateNonPrimaryRequest False ''remote'' 20 [(20, 110)] 7,
            ImageCopyRequest 10 20 100 False None [(20, 110)],
            Set_Copy_Progress 110 True 0, Notify_Update, UnlinkPeerRequest 10 ''peer''] \<and>
   map_sum id trace
     (handle_notify_image_update (- 5)
        ((new_Replayer ''local'' ''remote'' [] [])
           \<lparr>m_state := STATE_COMPLETE, m_remote_mirror_peer_uuid := ''peer'',
            m_remote_snap_id_start := 10\<rparr>))
     = Inr [Unregister_Update_Watcher]"
proof -
  let ?s = "(new_Replayer ''local'' ''remote'' [] [])
              \<lparr>m_state := STATE_REPLAYING, m_remote_mirror_peer_uuid := ''peer'',
               m_local_snap_id_start := 100, m_remote_snap_id_start := 10,
               m_remote_snap_id_end := 20\<rparr>"
  let ?u = "(new_Replayer ''local'' ''remote'' [] [])
           \<lparr>m_state := STATE_COMPLETE, m_remote_mirror_peer_uuid := ''peer'',
            m_remote_snap_id_start := 10\<rparr>"
  obtain s1 where h: "successful_sync [(20, 110)] 7 110 ?s = Inr s1"
    by (simp add: successful_sync_def then_call_def copy_snapshots_def CEPH_NOSNAP_def)
  have st: "m_state ?s \<noteq> STATE_COMPLETE" by simp
  from unlink_peer_after_sync [OF h st, of 0]
  have n: "handle_notify_image_update 0 s1 = Inr (emit (UnlinkPeerRequest 10 ''peer'') s1)"
    by simp
  from successful_sync_result [OF h]
  have "trace s1 = [SnapshotCopyRequest 10 20 100 False, GetImageStateRequest 20,
            CreateNonPrimaryRequest False ''remote'' 20 [(20, 110)] 7,
            ImageCopyRequest 10 20 100 False None [(20, 110)],
            Set_Copy_Progress 110 True 0, Notify_Update]"
    by (simp add: new_Replayer_def is_demoted_def default_MirrorSnapshotNamespace_def)
  then have a: "map_sum id trace
     (then_call (successful_sync [(20, 110)] 7 110 ?s) (handle_notify_image_update 0))
     = Inr [SnapshotCopyRequest 10 20 100 False, GetImageStateRequest 20,
            CreateNonPrimaryRequest False ''remote'' 20 [(20, 110)] 7,
            ImageCopyRequest 10 20 100 False None [(20, 110)],
            Set_Copy_Progress 110 True 0, Notify_Update, UnlinkPeerRequest 10 ''peer'']"
    by (simp add: h n then_call_def emit_def)
  have "m_state ?u = STATE_COMPLETE" by simp
  with unlink_peer_after_sync [OF h st, of "- 5" _ _ ?u]
  have "handle_notify_image_update (- 5) ?u = Inr (unregister_update_watcher ?u)"
    and "trace (unregister_update_watcher ?u) = trace ?u @ [Unregister_Update_Watcher]"
    by blast+
  then have b: "map_sum id trace (handle_notify_image_update (- 5) ?u)
     = Inr [Unregister_Update_Watcher]"
    by (simp add: new_Replayer_def)
  from a b show ?thesis by simp
qed

subsection \<open>A local image linked to an unknown peer\<close>

text \<open>
  C4, as stated, fails: the local loop classifies every mirror snapshot before the peer is
  compared, so a list whose most recent mirror snapshot is non-primary and linked to
  another peer, but which holds an incomplete primary snapshot before it, ends the replay
  with \<open>-EINVAL\<close> "incomplete local primary snapshot".
\<close>

theorem incomplete_primary_before_unknown_peer:
  "map_sum id (\<lambda>s. (m_state s, m_error_code s, m_error_description s))
     (scan_local_mirror_snapshots
        ((new_Replayer ''local'' ''remote''
            [(50, Mirror (default_MirrorSnapshotNamespace
                    \<lparr>state := MIRROR_SNAPSHOT_STATE_PRIMARY\<rparr>)),
             (100, Mirror (default_MirrorSnapshotNamespace
                    \<lparr>complete := True, primary_mirror_uuid := ''other'',
                     primary_snap_id := 10\<rparr>))]
            [])\<lparr>m_state := STATE_REPLAYING\<rparr>))
     = Inr (STATE_COMPLETE, - 22, ''incomplete local primary snapshot'')"
  by (simp add: scan_local_mirror_snapshots.simps is_replay_interrupted_def reset_plan_def
        scan_local_body_def handle_replay_complete_def notify_status_updated_def emit_def
        is_primary_def is_non_primary_def Let_def EINVAL_def
        default_MirrorSnapshotNamespace_def new_Replayer_def)

text \<open>
  C4, amended: in a running replay (state \<open>Replaying\<close>, no error latched), for every local
  snapshot list whose mirror snapshots all pass the local loop (valid ids; each is
  non-primary, or primary and complete) and whose most recent mirror snapshot is
  non-primary with a \<open>primary_mirror_uuid\<close> other than the remote image's mirror uuid, the
  planner ends the replay with \<open>-EEXIST\<close> and "local image linked to unknown peer",
  whatever the remote snapshot list is; the remote scan is not started.
\<close>

theorem unknown_peer_rejected:
  assumes "m_state s = STATE_REPLAYING" and "m_error_code s = 0"
    and "list_all local_snapshot_ok (mirror_snapshots (local_snap_info s))"
    and "mirror_snapshots (local_snap_info s) \<noteq> []"
    and "is_non_primary (snd (last (mirror_snapshots (local_snap_info s))))"
    and "primary_mirror_uuid (snd (last (mirror_snapshots (local_snap_info s))))
           \<noteq> remote_mirror_uuid s"
  shows "\<exists>s'. scan_local_mirror_snapshots (s\<lparr>remote_snap_info := remote\<rparr>) = Inr s' \<and>
           m_state s' = STATE_COMPLETE \<and> m_error_code s' = - EEXIST \<and>
           m_error_description s' = ''local image linked to unknown peer'' \<and>
           trace s' = trace s @ [Queue_Notification] \<and>
           m_remote_image_updated s' = m_remote_image_updated s \<and>
           update_during_scan s' = update_during_scan s \<and>
           m_remote_snap_id_start s' = 0 \<and> m_remote_snap_id_end s' = CEPH_NOSNAP"
proof -
  let ?s = "s\<lparr>remote_snap_info := remote\<rparr>"
  let ?ms = "mirror_snapshots (local_snap_info s)"
  from scan_local_loop_last [OF assms(3), of "reset_plan ?s"] obtain l where
    l: "for_each (local_snap_info s) scan_local_body (reset_plan ?s) = Fell_Through l"
       "local_plan_of ?ms (reset_plan ?s) l"
    by blast
  from l(1) have "for_each (local_snap_info ?s) scan_local_body (reset_plan ?s) = Fell_Through l"
    by simp
  note u = scan_local_mirror_snapshots_fell_through [OF _ this]
  from scan_local_loop_frame [of "local_snap_info s" "reset_plan ?s" l] l(1)
  have f: "local_plan_only (reset_plan ?s) l" by simp
  from local_plan_only_same [OF f]
  have same: "m_state l = m_state s" "m_error_code l = m_error_code s"
    "trace l = trace s" "remote_mirror_uuid l = remote_mirror_uuid s"
    "m_remote_image_updated l = m_remote_image_updated s"
    "update_during_scan l = update_during_scan s"
    "m_remote_snap_id_start l = 0" "m_remote_snap_id_end l = CEPH_NOSNAP"
    by (simp_all add: reset_plan_def)
  from l(2) assms(4) have ns: "m_local_mirror_snap_ns l = snd (last ?ms)"
    by (simp add: local_plan_of_def)
  from assms(3,4) have "local_snapshot_ok (last ?ms)"
    by (simp add: list_all_iff)
  with l(2) assms(4) have found: "m_local_snap_id_start l > 0 \<or> m_local_snap_id_end l \<noteq> CEPH_NOSNAP"
    by (auto simp: local_plan_of_def local_snapshot_ok_def word_gt_0 split: if_split_asm)
  from u found ns assms(1,5,6) same
  have "scan_local_mirror_snapshots ?s =
    Inr (handle_replay_complete (- EEXIST) ''local image linked to unknown peer'' l)"
    by simp
  with same assms(1,2) show ?thesis
    by (simp add: handle_replay_complete_def notify_status_updated_def emit_def Let_def)
qed

theorem unknown_peer_rejected_witness:
  "map_sum id (\<lambda>s. (m_state s, m_error_code s, m_error_description s, trace s))
     (scan_local_mirror_snapshots
        ((new_Replayer ''local'' ''Y''
            [(100, Mirror (default_MirrorSnapshotNamespace
                    \<lparr>complete := True, primary_mirror_uuid := ''X'',
                     primary_snap_id := 10\<rparr>))]
            [])
         \<lparr>m_state := STATE_REPLAYING,
          remote_snap_info :=
            [(10, Mirror (default_MirrorSnapshotNamespace
                    \<lparr>state := MIRROR_SNAPSHOT_STATE_PRIMARY, complete := True,
                     mirror_peer_uuids := {''peer''}\<rparr>))]\<rparr>))
     = Inr (STATE_COMPLETE, - 17, ''local image linked to unknown peer'', [Queue_Notification])"
proof -
  let ?s = "(new_Replayer ''local'' ''Y''
            [(100, Mirror (default_MirrorSnapshotNamespace
                    \<lparr>complete := True, primary_mirror_uuid := ''X'',
                     primary_snap_id := 10\<rparr>))]
            [])\<lparr>m_state := STATE_REPLAYING\<rparr>"
  have h1: "m_state ?s = STATE_REPLAYING" by simp
  have h2: "m_error_code ?s = 0" by (simp add: new_Replayer_def)
  have h3: "list_all local_snapshot_ok (mirror_snapshots (local_snap_info ?s))"
    by (simp add: new_Replayer_def local_snapshot_ok_def CEPH_NOSNAP_def is_non_primary_def
          default_MirrorSnapshotNamespace_def)
  have h4: "mirror_snapshots (local_snap_info ?s) \<noteq> []"
    by (simp add: new_Replayer_def)
  have h5: "is_non_primary (snd (last (mirror_snapshots (local_snap_info ?s))))"
    by (simp add: new_Replayer_def is_non_primary_def default_MirrorSnapshotNamespace_def)
  have h6: "primary_mirror_uuid (snd (last (mirror_snapshots (local_snap_info ?s))))
              \<noteq> remote_mirror_uuid ?s"
    by (simp add: new_Replayer_def)
  from unknown_peer_rejected [OF h1 h2 h3 h4 h5 h6,
      of "[(10, Mirror (default_MirrorSnapshotNamespace
                    \<lparr>state := MIRROR_SNAPSHOT_STATE_PRIMARY, complete := True,
                     mirror_peer_uuids := {''peer''}\<rparr>))]"]
  show ?thesis
    by (auto simp: EEXIST_def new_Replayer_def)
qed

subsection \<open>Resuming an image copy\<close>

text \<open>
  C3, as stated, fails: \<open>copy_image\<close> passes the cursor as resume object only when it is
  positive. With an in-progress local snapshot whose \<open>last_copied_object_number\<close> is 0
  (what a copy interrupted before any recorded progress leaves), the image copy is
  dispatched directly but with no resume object, not with resume object 0.
\<close>

theorem resume_without_progress_has_no_resume_object:
  "map_sum id trace
     (scan_local_mirror_snapshots
        ((new_Replayer ''local'' ''remote''
            [(100, Mirror (default_MirrorSnapshotNamespace
                     \<lparr>complete := True, primary_mirror_uuid := ''remote'',
                      primary_snap_id := 10\<rparr>)),
             (110, Mirror (default_MirrorSnapshotNamespace
                     \<lparr>primary_mirror_uuid := ''remote'', primary_snap_id := 20,
                      last_copied_object_number := 0, snap_seqs := [(20, 110)]\<rparr>))]
            [(10, Mirror (default_MirrorSnapshotNamespace
                     \<lparr>state := MIRROR_SNAPSHOT_STATE_PRIMARY, complete := True,
                      mirror_peer_uuids := {''peer''}\<rparr>)),
             (20, Mirror (default_MirrorSnapshotNamespace
                     \<lparr>state := MIRROR_SNAPSHOT_STATE_PRIMARY, complete := True,
                      mirror_peer_uuids := {''peer''}\<rparr>))])
         \<lparr>m_state := STATE_REPLAYING, m_remote_mirror_peer_uuid := ''peer''\<rparr>))
     = Inr [ImageCopyRequest 10 20 100 False None [(20, 110)]]"
  by (simp add: planner_eval)

text \<open>
  C3, amended: for every planner pass whose local scan ends with an in-progress snapshot
  cached (\<open>local_snap_id_end\<close> set, the most recent local mirror snapshot non-primary,
  linked to the remote image, with \<open>complete = false\<close> and cursor \<open>k\<close>) and whose remote
  scan finds a complete end snapshot, the planner sends exactly one request, the image
  copy, with resume object \<open>k\<close> if \<open>k > 0\<close> and none if \<open>k = 0\<close>, and with the cached
  \<open>snap_seqs\<close>; no snapshot copy and no snapshot creation is sent.
\<close>

theorem resume_dispatch:
  assumes "m_state s \<noteq> STATE_COMPLETE"
    and "for_each (local_snap_info s) scan_local_body (reset_plan s) = Fell_Through l"
    and "m_local_snap_id_end l \<noteq> CEPH_NOSNAP"
    and "is_non_primary (m_local_mirror_snap_ns l)"
    and "\<not> complete (m_local_mirror_snap_ns l)"
    and "primary_mirror_uuid (m_local_mirror_snap_ns l) = remote_mirror_uuid s"
    and "last_copied_object_number (m_local_mirror_snap_ns l) = k"
    and "for_each (remote_snap_info s) scan_remote_body
           (watcher_during_scan (l\<lparr>m_remote_image_updated := False\<rparr>), False)
         = Fell_Through (e, d)"
    and "m_remote_snap_id_end e \<noteq> CEPH_NOSNAP"
    and "complete (m_remote_mirror_snap_ns e)"
  shows "scan_local_mirror_snapshots s = Inr (copy_image e) \<and>
         trace (copy_image e) = trace s @
           [ImageCopyRequest (m_remote_snap_id_start e) (m_remote_snap_id_end e)
              (m_local_snap_id_start l) False (if k > 0 then Some k else None)
              (snap_seqs (m_local_mirror_snap_ns l))]"
proof -
  note l = local_plan_only_same [OF scan_local_loop_frame [OF assms(2)]]
  note w = watcher_during_scan_same [of "l\<lparr>m_remote_image_updated := False\<rparr>"]
  note e = remote_plan_only_same [OF scan_remote_loop_frame [OF assms(8)]]
  from assms(4) have np: "state (m_local_mirror_snap_ns l) \<noteq> MIRROR_SNAPSHOT_STATE_PRIMARY"
    by (auto simp: is_non_primary_def)
  from l have "remote_snap_info l = remote_snap_info s" by (simp add: reset_plan_def)
  with assms(8) have "for_each (remote_snap_info l) scan_remote_body
           (watcher_during_scan (l\<lparr>m_remote_image_updated := False\<rparr>), False)
         = Fell_Through (e, d)" by simp
  from scan_remote_mirror_snapshots_fell_through [OF this] assms(9,10) e w assms(3,5)
  have r: "scan_remote_mirror_snapshots l = Inr (copy_image e)" by simp
  from scan_local_mirror_snapshots_fell_through [OF assms(1,2)] assms(3,4,5,6) np l r
  have "scan_local_mirror_snapshots s = Inr (copy_image e)"
    by (simp add: reset_plan_def)
  moreover from e w l assms(7) have "trace (copy_image e) = trace s @
           [ImageCopyRequest (m_remote_snap_id_start e) (m_remote_snap_id_end e)
              (m_local_snap_id_start l) False (if k > 0 then Some k else None)
              (snap_seqs (m_local_mirror_snap_ns l))]"
    by (simp add: copy_image_def emit_def reset_plan_def)
  ultimately show ?thesis by simp
qed

theorem resume_dispatch_witness:
  "map_sum id trace
     (scan_local_mirror_snapshots
        ((new_Replayer ''local'' ''remote''
            [(100, Mirror (default_MirrorSnapshotNamespace
                     \<lparr>complete := True, primary_mirror_uuid := ''remote'',
                      primary_snap_id := 10\<rparr>)),
             (110, Mirror (default_MirrorSnapshotNamespace
                     \<lparr>primary_mirror_uuid := ''remote'', primary_snap_id := 20,
                      last_copied_object_number := 42, snap_seqs := [(20, 110)]\<rparr>))]
            [(10, Mirror (default_MirrorSnapshotNamespace
                     \<lparr>state := MIRROR_SNAPSHOT_STATE_PRIMARY, complete := True,
                      mirror_peer_uuids := {''peer''}\<rparr>)),
             (20, Mirror (default_MirrorSnapshotNamespace
                     \<lparr>state := MIRROR_SNAPSHOT_STATE_PRIMARY, complete := True,
                      mirror_peer_uuids := {''peer''}\<rparr>))])
         \<lparr>m_state := STATE_REPLAYING, m_remote_mirror_peer_uuid := ''peer''\<rparr>))
     = Inr [ImageCopyRequest 10 20 100 False (Some 42) [(20, 110)]]"
proof -
  let ?s = "(new_Replayer ''local'' ''remote''
            [(100, Mirror (default_MirrorSnapshotNamespace
                     \<lparr>complete := True, primary_mirror_uuid := ''remote'',
                      primary_snap_id := 10\<rparr>)),
             (110, Mirror (default_MirrorSnapshotNamespace
                     \<lparr>primary_mirror_uuid := ''remote'', primary_snap_id := 20,
                      last_copied_object_number := 42, snap_seqs := [(20, 110)]\<rparr>))]
            [(10, Mirror (default_MirrorSnapshotNamespace
                     \<lparr>state := MIRROR_SNAPSHOT_STATE_PRIMARY, complete := True,
                      mirror_peer_uuids := {''peer''}\<rparr>)),
             (20, Mirror (default_MirrorSnapshotNamespace
                     \<lparr>state := MIRROR_SNAPSHOT_STATE_PRIMARY, complete := True,
                      mirror_peer_uuids := {''peer''}\<rparr>))])
         \<lparr>m_state := STATE_REPLAYING, m_remote_mirror_peer_uuid := ''peer''\<rparr>"
  have h1: "m_state ?s \<noteq> STATE_COMPLETE" by simp
  let ?l = "(reset_plan ?s)
      \<lparr>m_local_mirror_snap_ns := default_MirrorSnapshotNamespace
         \<lparr>primary_mirror_uuid := ''remote'', primary_snap_id := 20,
          last_copied_object_number := 42, snap_seqs := [(20, 110)]\<rparr>,
       m_local_snap_id_start := 100, m_local_snap_id_end := 110\<rparr>"
  let ?e = "?l\<lparr>m_remote_image_updated := False, m_remote_snap_id_start := 10,
      m_remote_snap_id_end := 20,
      m_remote_mirror_snap_ns := default_MirrorSnapshotNamespace
        \<lparr>state := MIRROR_SNAPSHOT_STATE_PRIMARY, complete := True,
         mirror_peer_uuids := {''peer''}\<rparr>\<rparr>"
  have h2: "for_each (local_snap_info ?s) scan_local_body (reset_plan ?s) = Fell_Through ?l"
    by (simp add: planner_eval)
  have h3: "m_local_snap_id_end ?l \<noteq> CEPH_NOSNAP" by (simp add: CEPH_NOSNAP_def)
  have h4: "is_non_primary (m_local_mirror_snap_ns ?l)"
    by (simp add: is_non_primary_def default_MirrorSnapshotNamespace_def)
  have h5: "\<not> complete (m_local_mirror_snap_ns ?l)"
    by (simp add: default_MirrorSnapshotNamespace_def)
  have h6: "primary_mirror_uuid (m_local_mirror_snap_ns ?l) = remote_mirror_uuid ?s"
    by (simp add: new_Replayer_def)
  have h7: "last_copied_object_number (m_local_mirror_snap_ns ?l) = 42" by simp
  have h8: "for_each (remote_snap_info ?s) scan_remote_body
           (watcher_during_scan (?l\<lparr>m_remote_image_updated := False\<rparr>), False)
         = Fell_Through (?e, False)"
    by (simp add: planner_eval)
  have h9: "m_remote_snap_id_end ?e \<noteq> CEPH_NOSNAP" by (simp add: CEPH_NOSNAP_def)
  have h10: "complete (m_remote_mirror_snap_ns ?e)" by simp
  from resume_dispatch [OF h1 h2 h3 h4 h5 h6 h7 h8 h9 h10]
  show ?thesis by (simp add: new_Replayer_def reset_plan_def)
qed

subsection \<open>The preconditions of the full sequence\<close>

text \<open>
  C9: the assertions of \<open>copy_snapshots\<close> can fail. After a local demotion the most
  recent local mirror snapshot is a complete demoted primary one; it shadows no remote
  snapshot, so its \<open>primary_snap_id\<close> is the sentinel, and the local scan seeds
  \<open>remote_snap_id_start\<close> with it. If the remote image then offers a complete primary
  snapshot for this peer before any matching demotion snapshot, the skip region lets it
  through (the start is not 0) and the full sequence is dispatched with
  \<open>remote_snap_id_start = NOSNAP\<close>.
\<close>

theorem demoted_local_fails_copy_snapshots_assertion:
  "scan_local_mirror_snapshots
     ((new_Replayer ''local'' ''remote''
         [(5, Mirror (default_MirrorSnapshotNamespace
                 \<lparr>state := MIRROR_SNAPSHOT_STATE_PRIMARY_DEMOTED, complete := True,
                  mirror_peer_uuids := {''remote-peer''}\<rparr>))]
         [(10, Mirror (default_MirrorSnapshotNamespace
                  \<lparr>state := MIRROR_SNAPSHOT_STATE_PRIMARY, complete := True,
                   mirror_peer_uuids := {''peer''}\<rparr>))])
      \<lparr>m_state := STATE_REPLAYING, m_remote_mirror_peer_uuid := ''peer''\<rparr>)
   = Inl (Assert_Failed ''m_remote_snap_id_start != CEPH_NOSNAP'')"
  by (simp add: planner_eval)

subsection \<open>A demoted remote image\<close>

text \<open>
  C7, as stated, fails: after the restart test the scan passes a checkpoint, so a scan
  that ends with \<open>remote_demoted\<close> set, no end snapshot and no notification, but with a
  shut-down requested meanwhile, starts the teardown and never records "remote image
  demoted".
\<close>

theorem shut_down_during_scan_hides_demotion:
  "map_sum id (\<lambda>s. (m_state s, m_error_code s, m_error_description s, trace s))
     (then_call
        (shut_down 9
           ((new_Replayer ''local'' ''remote'' []
               [(10, Mirror (default_MirrorSnapshotNamespace
                        \<lparr>state := MIRROR_SNAPSHOT_STATE_PRIMARY_DEMOTED, complete := True\<rparr>))])
            \<lparr>m_state := STATE_REPLAYING, m_remote_mirror_peer_uuid := ''peer''\<rparr>))
        scan_remote_mirror_snapshots)
     = Inr (STATE_COMPLETE, 0, [], [Unregister_Update_Watcher])"
  by (simp add: then_call_def shut_down_def planner_eval)

text \<open>
  C7, amended: in a remote scan over a map with valid ids, started with no end snapshot
  (as the local scan leaves the plan), \<open>remote_demoted\<close> is at the end of the loop the
  value (primary and demoted) computed at the last mirror snapshot the scan visited: the
  accepted end snapshot if there is one, else the last mirror snapshot of the map (false
  if the map has none); a later snapshot overwrites an earlier observation. When the scan
  of a running replay (state \<open>Replaying\<close>, no error latched) ends with \<open>remote_demoted\<close>
  set, no end snapshot and no update notification pending, the replay ends with code 0
  and description "remote image demoted", queueing one notification. When a shut-down
  was requested meanwhile (state \<open>Complete\<close>) and the scan ends with no complete end
  snapshot, the checkpoint only starts the teardown, whatever \<open>remote_demoted\<close> is: the
  watcher is unregistered and the latched code and description stay as they were.
\<close>

theorem remote_demoted_terminates:
  assumes "list_all (\<lambda>x. fst x \<noteq> CEPH_NOSNAP) (mirror_snapshots (remote_snap_info s))"
    and "m_remote_snap_id_end s = CEPH_NOSNAP"
    and "for_each (remote_snap_info s) scan_remote_body
           (watcher_during_scan (s\<lparr>m_remote_image_updated := False\<rparr>), False)
         = Fell_Through (e, remote_demoted)"
  shows "remote_demoted =
           (if m_remote_snap_id_end e = CEPH_NOSNAP
            then mirror_snapshots (remote_snap_info s) \<noteq> [] \<and>
                 is_primary (snd (last (mirror_snapshots (remote_snap_info s)))) \<and>
                 is_demoted (snd (last (mirror_snapshots (remote_snap_info s))))
            else is_primary (m_remote_mirror_snap_ns e) \<and>
                 is_demoted (m_remote_mirror_snap_ns e)) \<and>
         (m_state s = STATE_REPLAYING \<and> m_error_code s = 0 \<and>
          m_remote_snap_id_end e = CEPH_NOSNAP \<and> \<not> m_remote_image_updated e \<and>
          remote_demoted \<longrightarrow>
            (\<exists>s'. scan_remote_mirror_snapshots s = Inr s' \<and> m_state s' = STATE_COMPLETE \<and>
               m_error_code s' = 0 \<and> m_error_description s' = ''remote image demoted'' \<and>
               trace s' = trace s @ [Queue_Notification])) \<and>
         (m_state s = STATE_COMPLETE \<and>
          \<not> (m_remote_snap_id_end e \<noteq> CEPH_NOSNAP \<and> complete (m_remote_mirror_snap_ns e)) \<longrightarrow>
            scan_remote_mirror_snapshots s = Inr (unregister_update_watcher e) \<and>
            m_state (unregister_update_watcher e) = STATE_COMPLETE \<and>
            m_error_code (unregister_update_watcher e) = m_error_code s \<and>
            m_error_description (unregister_update_watcher e) = m_error_description s \<and>
            trace (unregister_update_watcher e) = trace s @ [Unregister_Update_Watcher])"
proof -
  let ?w = "watcher_during_scan (s\<lparr>m_remote_image_updated := False\<rparr>)"
  note w = watcher_during_scan_same [of "s\<lparr>m_remote_image_updated := False\<rparr>"]
  note e = remote_plan_only_same [OF scan_remote_loop_frame [OF assms(3)]]
  from w assms(2) have w_end: "m_remote_snap_id_end ?w = CEPH_NOSNAP" by simp
  have d: "remote_demoted =
           (if m_remote_snap_id_end e = CEPH_NOSNAP
            then mirror_snapshots (remote_snap_info s) \<noteq> [] \<and>
                 is_primary (snd (last (mirror_snapshots (remote_snap_info s)))) \<and>
                 is_demoted (snd (last (mirror_snapshots (remote_snap_info s))))
            else is_primary (m_remote_mirror_snap_ns e) \<and>
                 is_demoted (m_remote_mirror_snap_ns e))"
  proof (cases "m_remote_snap_id_end e = CEPH_NOSNAP")
    case True
    from scan_remote_loop_demoted [OF assms(3,1) w_end True] True show ?thesis by auto
  next
    case False
    from scan_remote_loop_demoted_end [OF assms(3) w_end False] False show ?thesis by simp
  qed
  have r: "m_state s = STATE_REPLAYING \<and> m_error_code s = 0 \<and>
          m_remote_snap_id_end e = CEPH_NOSNAP \<and> \<not> m_remote_image_updated e \<and>
          remote_demoted \<longrightarrow>
            (\<exists>s'. scan_remote_mirror_snapshots s = Inr s' \<and> m_state s' = STATE_COMPLETE \<and>
               m_error_code s' = 0 \<and> m_error_description s' = ''remote image demoted'' \<and>
               trace s' = trace s @ [Queue_Notification])"
  proof
    assume a: "m_state s = STATE_REPLAYING \<and> m_error_code s = 0 \<and>
          m_remote_snap_id_end e = CEPH_NOSNAP \<and> \<not> m_remote_image_updated e \<and>
          remote_demoted"
    with scan_remote_mirror_snapshots_fell_through [OF assms(3)] e w
    have "scan_remote_mirror_snapshots s =
        Inr (handle_replay_complete 0 ''remote image demoted'' e)" by simp
    with e w a show "\<exists>s'. scan_remote_mirror_snapshots s = Inr s' \<and>
        m_state s' = STATE_COMPLETE \<and> m_error_code s' = 0 \<and>
        m_error_description s' = ''remote image demoted'' \<and>
        trace s' = trace s @ [Queue_Notification]"
      by (simp add: handle_replay_complete_def notify_status_updated_def emit_def Let_def)
  qed
  have c: "m_state s = STATE_COMPLETE \<and>
          \<not> (m_remote_snap_id_end e \<noteq> CEPH_NOSNAP \<and> complete (m_remote_mirror_snap_ns e)) \<longrightarrow>
            scan_remote_mirror_snapshots s = Inr (unregister_update_watcher e) \<and>
            m_state (unregister_update_watcher e) = STATE_COMPLETE \<and>
            m_error_code (unregister_update_watcher e) = m_error_code s \<and>
            m_error_description (unregister_update_watcher e) = m_error_description s \<and>
            trace (unregister_update_watcher e) = trace s @ [Unregister_Update_Watcher]"
  proof
    assume a: "m_state s = STATE_COMPLETE \<and>
          \<not> (m_remote_snap_id_end e \<noteq> CEPH_NOSNAP \<and> complete (m_remote_mirror_snap_ns e))"
    then have "m_state s \<noteq> STATE_REPLAYING" by simp
    from watcher_during_scan_not_replaying [OF this] e
    have flag: "\<not> m_remote_image_updated e" by simp
    from scan_remote_mirror_snapshots_fell_through [OF assms(3)] a flag e w
    have "scan_remote_mirror_snapshots s = Inr (unregister_update_watcher e)" by auto
    with e w a show "scan_remote_mirror_snapshots s = Inr (unregister_update_watcher e) \<and>
            m_state (unregister_update_watcher e) = STATE_COMPLETE \<and>
            m_error_code (unregister_update_watcher e) = m_error_code s \<and>
            m_error_description (unregister_update_watcher e) = m_error_description s \<and>
            trace (unregister_update_watcher e) = trace s @ [Unregister_Update_Watcher]"
      by (simp add: unregister_update_watcher_def emit_def)
  qed
  from d r c show ?thesis by blast
qed

theorem remote_demoted_terminates_witness:
  "map_sum id (\<lambda>s. (m_state s, m_error_code s, m_error_description s, trace s))
     (scan_remote_mirror_snapshots
        ((new_Replayer ''local'' ''remote'' []
            [(10, Mirror (default_MirrorSnapshotNamespace
                     \<lparr>state := MIRROR_SNAPSHOT_STATE_PRIMARY_DEMOTED, complete := True\<rparr>))])
         \<lparr>m_state := STATE_REPLAYING, m_remote_mirror_peer_uuid := ''peer''\<rparr>))
     = Inr (STATE_COMPLETE, 0, ''remote image demoted'', [Queue_Notification]) \<and>
   map_sum id (\<lambda>s. (m_state s, m_error_code s, m_error_description s, trace s))
     (scan_remote_mirror_snapshots
        ((new_Replayer ''local'' ''remote'' []
            [(10, Mirror (default_MirrorSnapshotNamespace
                     \<lparr>state := MIRROR_SNAPSHOT_STATE_PRIMARY_DEMOTED, complete := True\<rparr>)),
             (20, Mirror (default_MirrorSnapshotNamespace
                     \<lparr>state := MIRROR_SNAPSHOT_STATE_PRIMARY_DEMOTED, complete := True\<rparr>))])
         \<lparr>m_state := STATE_COMPLETE, m_remote_mirror_peer_uuid := ''peer'',
          m_on_init_shutdown := Some 9\<rparr>))
     = Inr (STATE_COMPLETE, 0, [], [Unregister_Update_Watcher])"
proof -
  let ?s = "(new_Replayer ''local'' ''remote'' []
            [(10, Mirror (default_MirrorSnapshotNamespace
                     \<lparr>state := MIRROR_SNAPSHOT_STATE_PRIMARY_DEMOTED, complete := True\<rparr>))])
         \<lparr>m_state := STATE_REPLAYING, m_remote_mirror_peer_uuid := ''peer''\<rparr>"
  let ?u = "(new_Replayer ''local'' ''remote'' []
            [(10, Mirror (default_MirrorSnapshotNamespace
                     \<lparr>state := MIRROR_SNAPSHOT_STATE_PRIMARY_DEMOTED, complete := True\<rparr>)),
             (20, Mirror (default_MirrorSnapshotNamespace
                     \<lparr>state := MIRROR_SNAPSHOT_STATE_PRIMARY_DEMOTED, complete := True\<rparr>))])
         \<lparr>m_state := STATE_COMPLETE, m_remote_mirror_peer_uuid := ''peer'',
          m_on_init_shutdown := Some 9\<rparr>"
  have h1: "list_all (\<lambda>x. fst x \<noteq> CEPH_NOSNAP) (mirror_snapshots (remote_snap_info ?s))"
    by (simp add: new_Replayer_def CEPH_NOSNAP_def)
  have h2: "m_remote_snap_id_end ?s = CEPH_NOSNAP" by (simp add: new_Replayer_def)
  have h3: "for_each (remote_snap_info ?s) scan_remote_body
           (watcher_during_scan (?s\<lparr>m_remote_image_updated := False\<rparr>), False)
         = Fell_Through (?s, True)"
    by (simp add: planner_eval)
  have p: "m_state ?s = STATE_REPLAYING \<and> m_error_code ?s = 0 \<and>
           m_remote_snap_id_end ?s = CEPH_NOSNAP \<and> \<not> m_remote_image_updated ?s \<and> True"
    by (simp add: new_Replayer_def)
  from remote_demoted_terminates [OF h1 h2 h3] p
  have a: "map_sum id (\<lambda>s. (m_state s, m_error_code s, m_error_description s, trace s))
     (scan_remote_mirror_snapshots ?s)
     = Inr (STATE_COMPLETE, 0, ''remote image demoted'', [Queue_Notification])"
    by (auto simp: new_Replayer_def)
  have u1: "list_all (\<lambda>x. fst x \<noteq> CEPH_NOSNAP) (mirror_snapshots (remote_snap_info ?u))"
    by (simp add: new_Replayer_def CEPH_NOSNAP_def)
  have u2: "m_remote_snap_id_end ?u = CEPH_NOSNAP" by (simp add: new_Replayer_def)
  have u3: "for_each (remote_snap_info ?u) scan_remote_body
           (watcher_during_scan (?u\<lparr>m_remote_image_updated := False\<rparr>), False)
         = Fell_Through (?u, True)"
    by (simp add: planner_eval)
  have q: "m_state ?u = STATE_COMPLETE \<and>
          \<not> (m_remote_snap_id_end ?u \<noteq> CEPH_NOSNAP \<and> complete (m_remote_mirror_snap_ns ?u))"
    by (simp add: new_Replayer_def)
  from remote_demoted_terminates [OF u1 u2 u3] q
  have "scan_remote_mirror_snapshots ?u = Inr (unregister_update_watcher ?u)"
    and "m_state (unregister_update_watcher ?u) = STATE_COMPLETE"
    and "m_error_code (unregister_update_watcher ?u) = m_error_code ?u"
    and "m_error_description (unregister_update_watcher ?u) = m_error_description ?u"
    and "trace (unregister_update_watcher ?u) = trace ?u @ [Unregister_Update_Watcher]"
    by blast+
  then have b: "map_sum id (\<lambda>s. (m_state s, m_error_code s, m_error_description s, trace s))
     (scan_remote_mirror_snapshots ?u)
     = Inr (STATE_COMPLETE, 0, [], [Unregister_Update_Watcher])"
    by (simp add: new_Replayer_def)
  from a b show ?thesis by simp
qed

subsection \<open>An update notification during the scan\<close>

text \<open>
  C8: the remote scan first clears \<open>remote_image_updated\<close>, so the flag's value before the
  scan has no effect on the scan. In a running replay whose scan ends with no complete
  end snapshot: when a notification arrives while the scan walks the map, the scan does
  not go idle, it clears the flag and continues as \<open>refresh_local_image\<close>, still in
  \<open>Replaying\<close>, having sent nothing; when none arrives, the scan does not restart, even
  if the flag was set before it: it ends the replay ("remote image demoted") or goes
  \<open>Idle\<close>.
\<close>

theorem update_during_scan_restarts:
  assumes "m_state s = STATE_REPLAYING"
    and "for_each (remote_snap_info s) scan_remote_body
           (watcher_during_scan (s\<lparr>m_remote_image_updated := False\<rparr>), False)
         = Fell_Through (e, remote_demoted)"
    and "\<not> (m_remote_snap_id_end e \<noteq> CEPH_NOSNAP \<and> complete (m_remote_mirror_snap_ns e))"
  shows "scan_remote_mirror_snapshots (s\<lparr>m_remote_image_updated := stale\<rparr>) =
           scan_remote_mirror_snapshots s \<and>
         (update_during_scan s = True # rest \<longrightarrow>
            scan_remote_mirror_snapshots (s\<lparr>m_remote_image_updated := stale\<rparr>) =
              refresh_local_image (e\<lparr>m_remote_image_updated := False\<rparr>) \<and>
            m_state e = STATE_REPLAYING \<and> trace e = trace s \<and> update_during_scan e = rest) \<and>
         (update_during_scan s = [] \<or> update_during_scan s = False # rest \<longrightarrow>
            scan_remote_mirror_snapshots (s\<lparr>m_remote_image_updated := stale\<rparr>) =
              Inr (if remote_demoted
                   then handle_replay_complete 0 ''remote image demoted'' e
                   else notify_status_updated (e\<lparr>m_state := STATE_IDLE\<rparr>)) \<and>
            \<not> m_remote_image_updated e \<and> trace e = trace s)"
proof -
  let ?w = "watcher_during_scan (s\<lparr>m_remote_image_updated := False\<rparr>)"
  note e = remote_plan_only_same [OF scan_remote_loop_frame [OF assms(2)]]
  note w = watcher_during_scan_same [of "s\<lparr>m_remote_image_updated := False\<rparr>"]
  have same: "scan_remote_mirror_snapshots (s\<lparr>m_remote_image_updated := stale\<rparr>) =
           scan_remote_mirror_snapshots s"
    by (simp add: scan_remote_mirror_snapshots.simps)
  note u = scan_remote_mirror_snapshots_fell_through [OF assms(2)]
  have a: "update_during_scan s = True # rest \<longrightarrow>
            scan_remote_mirror_snapshots (s\<lparr>m_remote_image_updated := stale\<rparr>) =
              refresh_local_image (e\<lparr>m_remote_image_updated := False\<rparr>) \<and>
            m_state e = STATE_REPLAYING \<and> trace e = trace s \<and> update_during_scan e = rest"
  proof
    assume n: "update_during_scan s = True # rest"
    with assms(1)
    have "?w = s\<lparr>m_remote_image_updated := True, update_during_scan := rest\<rparr>"
      by (simp add: watcher_during_scan_def Let_def)
    with e assms(1) have "m_remote_image_updated e" "m_state e = STATE_REPLAYING"
      "trace e = trace s" "update_during_scan e = rest"
      by simp_all
    with u assms(3) same
    show "scan_remote_mirror_snapshots (s\<lparr>m_remote_image_updated := stale\<rparr>) =
              refresh_local_image (e\<lparr>m_remote_image_updated := False\<rparr>) \<and>
            m_state e = STATE_REPLAYING \<and> trace e = trace s \<and> update_during_scan e = rest"
      by simp
  qed
  have b: "update_during_scan s = [] \<or> update_during_scan s = False # rest \<longrightarrow>
            scan_remote_mirror_snapshots (s\<lparr>m_remote_image_updated := stale\<rparr>) =
              Inr (if remote_demoted
                   then handle_replay_complete 0 ''remote image demoted'' e
                   else notify_status_updated (e\<lparr>m_state := STATE_IDLE\<rparr>)) \<and>
            \<not> m_remote_image_updated e \<and> trace e = trace s"
  proof
    assume q: "update_during_scan s = [] \<or> update_during_scan s = False # rest"
    from watcher_during_scan_quiet [OF q] e have flag: "\<not> m_remote_image_updated e" by simp
    from e w assms(1) have "m_state e = STATE_REPLAYING" "trace e = trace s" by simp_all
    with u assms(3) same flag
    show "scan_remote_mirror_snapshots (s\<lparr>m_remote_image_updated := stale\<rparr>) =
              Inr (if remote_demoted
                   then handle_replay_complete 0 ''remote image demoted'' e
                   else notify_status_updated (e\<lparr>m_state := STATE_IDLE\<rparr>)) \<and>
            \<not> m_remote_image_updated e \<and> trace e = trace s"
      by simp
  qed
  from same a b show ?thesis by blast
qed

theorem update_during_scan_restarts_witness:
  "map_sum id (\<lambda>s. (m_state s, trace s))
     (scan_remote_mirror_snapshots
        ((new_Replayer ''local'' ''remote'' [] [])
         \<lparr>m_state := STATE_REPLAYING, update_during_scan := [True],
          remote_refresh_required := True, m_remote_image_updated := True\<rparr>))
     = Inr (STATE_REPLAYING, [Refresh_Remote_Image]) \<and>
   map_sum id (\<lambda>s. (m_state s, trace s))
     (scan_remote_mirror_snapshots
        ((new_Replayer ''local'' ''remote'' [] [])
         \<lparr>m_state := STATE_REPLAYING, update_during_scan := [],
          remote_refresh_required := True, m_remote_image_updated := True\<rparr>))
     = Inr (STATE_IDLE, [Queue_Notification])"
proof -
  let ?s = "(new_Replayer ''local'' ''remote'' [] [])
         \<lparr>m_state := STATE_REPLAYING, update_during_scan := [True],
          remote_refresh_required := True\<rparr>"
  let ?e = "?s\<lparr>m_remote_image_updated := True, update_during_scan := []\<rparr>"
  have h1: "m_state ?s = STATE_REPLAYING" by simp
  have h2: "update_during_scan ?s = True # []" by simp
  have h3: "for_each (remote_snap_info ?s) scan_remote_body
           (watcher_during_scan (?s\<lparr>m_remote_image_updated := False\<rparr>), False)
         = Fell_Through (?e, False)"
    by (simp add: new_Replayer_def watcher_during_scan_def)
  have h4: "\<not> (m_remote_snap_id_end ?e \<noteq> CEPH_NOSNAP \<and> complete (m_remote_mirror_snap_ns ?e))"
    by (simp add: new_Replayer_def)
  have r: "refresh_local_image (?e\<lparr>m_remote_image_updated := False\<rparr>) =
      Inr (emit Refresh_Remote_Image (?e\<lparr>m_remote_image_updated := False\<rparr>))"
    by (simp add: refresh_local_image.simps refresh_remote_image.simps new_Replayer_def)
  from update_during_scan_restarts [OF h1 h3 h4, of True "[]"] h2
  have "scan_remote_mirror_snapshots (?s\<lparr>m_remote_image_updated := True\<rparr>) =
      refresh_local_image (?e\<lparr>m_remote_image_updated := False\<rparr>)"
    by blast
  with r have a: "map_sum id (\<lambda>s. (m_state s, trace s))
     (scan_remote_mirror_snapshots (?s\<lparr>m_remote_image_updated := True\<rparr>))
     = Inr (STATE_REPLAYING, [Refresh_Remote_Image])"
    by (simp add: emit_def new_Replayer_def)
  let ?q = "(new_Replayer ''local'' ''remote'' [] [])
         \<lparr>m_state := STATE_REPLAYING, update_during_scan := [],
          remote_refresh_required := True\<rparr>"
  let ?f = "?q\<lparr>m_remote_image_updated := False\<rparr>"
  have q1: "m_state ?q = STATE_REPLAYING" by simp
  have q2: "update_during_scan ?q = [] \<or> update_during_scan ?q = False # []" by simp
  have q3: "for_each (remote_snap_info ?q) scan_remote_body
           (watcher_during_scan (?q\<lparr>m_remote_image_updated := False\<rparr>), False)
         = Fell_Through (?f, False)"
    by (simp add: new_Replayer_def watcher_during_scan_def)
  have q4: "\<not> (m_remote_snap_id_end ?f \<noteq> CEPH_NOSNAP \<and> complete (m_remote_mirror_snap_ns ?f))"
    by (simp add: new_Replayer_def)
  from update_during_scan_restarts [OF q1 q3 q4, of True "[]"] q2
  have "scan_remote_mirror_snapshots (?q\<lparr>m_remote_image_updated := True\<rparr>) =
      Inr (if False then handle_replay_complete 0 ''remote image demoted'' ?f
           else notify_status_updated (?f\<lparr>m_state := STATE_IDLE\<rparr>))"
    by blast
  then have b: "map_sum id (\<lambda>s. (m_state s, trace s))
     (scan_remote_mirror_snapshots (?q\<lparr>m_remote_image_updated := True\<rparr>))
     = Inr (STATE_IDLE, [Queue_Notification])"
    by (simp add: notify_status_updated_def emit_def new_Replayer_def)
  from a b show ?thesis by simp
qed

end
